theory Spec2Isabelle
  imports Main "HOL-Library.AList"
begin

section \<open>Data model of the credential service\<close>

text \<open>
  The embedding follows \<^verbatim>\<open>pkg/service/credential/service.go\<close>. Go structs are records,
  \<^verbatim>\<open>map[string]any\<close> is an association list of JSON values read with \<open>map_of\<close>, a
  \<^verbatim>\<open>(value, error)\<close> return is a sum with the error on the left, and the storage engine is
  an explicit state: a record of namespaces, each an association list.
\<close>

datatype json =
    JString string
  | JNumber int
  | JBool bool
  | JNull
  | JArray "json list"
  | JObject "(string \<times> json) list"

text \<open>The two status purposes of the SDK are string constants.\<close>

definition StatusRevocation :: string where
  "StatusRevocation = ''revocation''"

definition StatusSuspension :: string where
  "StatusSuspension = ''suspension''"

text \<open>
  A StatusList2021Entry, the \<^verbatim>\<open>credentialStatus\<close> of a credential. The index is a decimal
  string in the source; it is kept as the number it denotes.
\<close>

record StatusList2021Entry =
  se_ID :: string
  se_StatusPurpose :: string
  se_StatusListIndex :: nat
  se_StatusListCredential :: string

text \<open>
  The subject of a status list credential. The encoded list is the gzip-compressed,
  base64-encoded bitstring; it is kept as the set of bit positions that are set.
\<close>

record StatusList2021Credential =
  sl_ID :: string
  sl_StatusPurpose :: string
  sl_EncodedList :: "nat set"

datatype CredentialSubject =
    SubjectData "(string \<times> json) list"
  | SubjectStatusList StatusList2021Credential

record CredentialSchema =
  cs_ID :: string
  cs_Type :: string

record VerifiableCredential =
  vc_Context :: "string list"
  vc_ID :: string
  vc_Issuer :: string
  vc_IssuanceDate :: string
  vc_ExpirationDate :: string
  vc_CredentialStatus :: "StatusList2021Entry option"
  vc_CredentialSubject :: CredentialSubject
  vc_CredentialSchema :: "CredentialSchema option"
  vc_Evidence :: "json list"

text \<open>\<^verbatim>\<open>credint.Container\<close>: what the service hands to storage and returns to callers.\<close>

record Container =
  ct_ID :: string
  ct_FullyQualifiedVerificationMethodID :: string
  ct_Credential :: VerifiableCredential
  ct_CredentialJWT :: "string option"
  ct_Revoked :: bool
  ct_Suspended :: bool

text \<open>
  Modelled from the spec: the stored credential record, declared outside \<^verbatim>\<open>service.go\<close>.
  Its fields are those the specification lists (local id, issuer, subject, schema id,
  verification method id, VC, JWT, revoked, suspended), which are the fields
  \<^verbatim>\<open>service.go\<close> reads.
\<close>

record StoredCredential =
  sc_LocalCredentialID :: string
  sc_FullyQualifiedVerificationMethodID :: string
  sc_Credential :: VerifiableCredential
  sc_CredentialJWT :: "string option"
  sc_Issuer :: string
  sc_Subject :: string
  sc_Schema :: string
  sc_Revoked :: bool
  sc_Suspended :: bool

record StoredKey =
  key_ID :: string
  key_Controller :: string
  key_Revoked :: bool
  key_Material :: string

record WatchKey =
  wk_Namespace :: string
  wk_Key :: string

record StatusListCredentialMetadata =
  statusListCredentialWatchKey :: WatchKey
  statusListIndexPoolWatchKey :: WatchKey
  statusListCurrentIndexWatchKey :: WatchKey

subsection \<open>Requests and responses\<close>

text \<open>The data of a request is a Go map: \<open>None\<close> is the nil map of a request without data.\<close>

record CreateCredentialRequest =
  rq_Issuer :: string
  rq_FullyQualifiedVerificationMethodID :: string
  rq_Subject :: string
  rq_Context :: string
  rq_SchemaID :: string
  rq_Data :: "(string \<times> json) list option"
  rq_Expiry :: string
  rq_Revocable :: bool
  rq_Suspendable :: bool
  rq_Evidence :: "json list"

record UpdateCredentialStatusRequest =
  us_ID :: string
  us_Revoked :: bool
  us_Suspended :: bool

record Status =
  st_ID :: string
  st_Revoked :: bool
  st_Suspended :: bool

subsection \<open>Errors\<close>

text \<open>
  One constructor for each error the service raises, named after its message:
  \<^item> \<open>AtMostOneStatus\<close>: \<^verbatim>\<open>credential may have at most one status\<close>;
  \<^item> \<open>CannotSetSubject s v\<close>: \<^verbatim>\<open>cannot set subject<s>, data already contains a different ID value: v\<close>;
  \<^item> \<open>KeyControllerMismatch c i k\<close>: \<^verbatim>\<open>key controller<c> does not match credential issuer<i> for key<k>\<close>;
  \<^item> \<open>CannotUseRevokedKey k\<close>: \<^verbatim>\<open>cannot use revoked key<k>\<close>;
  \<^item> \<open>CannotUpdateBoth\<close>: \<^verbatim>\<open>cannot update both suspended and revoked status\<close>;
  \<^item> \<open>CredentialNotValid i\<close>: \<^verbatim>\<open>credential returned is not valid: i\<close>;
  \<^item> \<open>NoCredentialStatusField i\<close>: \<^verbatim>\<open>credential "i" has no credentialStatus field\<close>;
  \<^item> \<open>StatusPurposeNotDerived\<close>: \<^verbatim>\<open>status purpose could not be derived from credential status\<close>;
  \<^item> \<open>ProblemGettingStatusListID\<close>: \<^verbatim>\<open>problem with getting status list credential id\<close>;
  \<^item> \<open>CannotInferID u\<close>: \<^verbatim>\<open>cannot infer status list credential id from "u"\<close>;
  \<^item> \<open>DifferentStatusPurpose c x y\<close>:
    \<^verbatim>\<open>credential<c> has a different status purpose<x> value than the status credential<y>\<close>;
  \<^item> \<open>CredentialNotFound i\<close>: \<^verbatim>\<open>credential not found with id: i\<close>;
  \<^item> \<open>NoFreeIndex\<close>: the index draws of one call are used up;
  \<^item> \<open>InvalidEvidenceFormat\<close>: \<^verbatim>\<open>invalid evidence format\<close>;
  \<^item> \<open>EvidenceMissingIDOrType\<close>: \<^verbatim>\<open>missing required 'id' or 'type'\<close>;
  \<^item> \<open>External m\<close>: an error of a collaborator (key store, schema service, SDK), message \<open>m\<close>;
  \<^item> \<open>Panic m\<close>: a panic of the Go runtime (nil pointer dereference, failed type assertion,
    assignment to an entry of a nil map);
  \<^item> \<open>Wrap m e\<close>: \<^verbatim>\<open>errors.Wrap(e, m)\<close> and \<^verbatim>\<open>LoggingErrorMsg(e, m)\<close>.
\<close>

datatype error =
    AtMostOneStatus
  | CannotSetSubject string json
  | KeyControllerMismatch string string string
  | CannotUseRevokedKey string
  | CannotUpdateBoth
  | CredentialNotValid string
  | NoCredentialStatusField string
  | StatusPurposeNotDerived
  | ProblemGettingStatusListID
  | CannotInferID string
  | DifferentStatusPurpose string string string
  | CredentialNotFound string
  | NoFreeIndex
  | InvalidEvidenceFormat
  | EvidenceMissingIDOrType
  | External string
  | Panic string
  | Wrap string error

text \<open>Sequencing of fallible steps: the first error ends the computation.\<close>

definition bindE :: "error + 'a \<Rightarrow> ('a \<Rightarrow> error + 'b) \<Rightarrow> error + 'b" where
  "bindE r f = (case r of Inl e \<Rightarrow> Inl e | Inr v \<Rightarrow> f v)"

text \<open>\<^verbatim>\<open>LoggingErrorMsg(err, msg)\<close> applied to the outcome of a step.\<close>

definition wrapE :: "string \<Rightarrow> error + 'a \<Rightarrow> error + 'a" where
  "wrapE m r = (case r of Inl e \<Rightarrow> Inl (Wrap m e) | Inr v \<Rightarrow> Inr v)"

section \<open>Storage\<close>

text \<open>
  Modelled from the spec: the storage engine, defined outside \<^verbatim>\<open>service.go\<close>. It holds
  the four persisted namespaces of the credential service:
  \<^verbatim>\<open>credential/<uuid>\<close>, and per triple \<^verbatim>\<open>status-list-credential\<close>,
  \<^verbatim>\<open>status-list-index-pool\<close> and \<^verbatim>\<open>status-list-current-index\<close>.
\<close>

record store =
  credentialNS :: "(string \<times> StoredCredential) list"
  statusListCredentialNS :: "(string \<times> StoredCredential) list"
  statusListIndexPoolNS :: "(string \<times> nat list) list"
  statusListCurrentIndexNS :: "(string \<times> nat) list"

text \<open>
  Modelled from the spec: the transaction \<^verbatim>\<open>storage.Tx\<close>, declared outside
  \<^verbatim>\<open>service.go\<close>. It is the pending write set: the writes made through it, oldest
  first. Reads in \<^verbatim>\<open>service.go\<close> go to \<^verbatim>\<open>s.storage\<close> without the transaction, so they
  see the committed store, not the pending writes.
\<close>

datatype write_op =
    WriteCredential string StoredCredential
  | WriteStatusListCredential string StoredCredential
  | WriteIndexPool string "nat list"
  | WriteCurrentIndex string nat

type_synonym Tx = "write_op list"

text \<open>Modelled from the spec: a write puts the value under its key in its namespace.\<close>

fun applyWrite :: "store \<Rightarrow> write_op \<Rightarrow> store" where
  "applyWrite db (WriteCredential k v) = db\<lparr>credentialNS := AList.update k v (credentialNS db)\<rparr>"
| "applyWrite db (WriteStatusListCredential k v) =
     db\<lparr>statusListCredentialNS := AList.update k v (statusListCredentialNS db)\<rparr>"
| "applyWrite db (WriteIndexPool k v) =
     db\<lparr>statusListIndexPoolNS := AList.update k v (statusListIndexPoolNS db)\<rparr>"
| "applyWrite db (WriteCurrentIndex k v) =
     db\<lparr>statusListCurrentIndexNS := AList.update k v (statusListCurrentIndexNS db)\<rparr>"

text \<open>Modelled from the spec: the commit of a transaction applies its writes in order.\<close>

definition commit :: "Tx \<Rightarrow> store \<Rightarrow> store" where
  "commit tx db = foldl applyWrite db tx"

text \<open>
  Modelled from the spec: \<^verbatim>\<open>Execute(fn, watchKeys)\<close> of the storage abstraction, defined
  outside \<^verbatim>\<open>service.go\<close>. It runs \<open>fn\<close> on a fresh transaction; when \<open>fn\<close> fails
  the write set is discarded, otherwise it is committed. No other writer runs in this
  sequential model, so no watched key changes and the first attempt is the only one.
\<close>

definition Execute ::
  "(store \<Rightarrow> Tx \<Rightarrow> error + ('a \<times> Tx)) \<Rightarrow> WatchKey list \<Rightarrow> store \<Rightarrow> (error + 'a) \<times> store" where
  "Execute fn watchKeys db =
     (case fn db [] of
        Inl e \<Rightarrow> (Inl e, db)
      | Inr (v, tx) \<Rightarrow> (Inr v, commit tx db))"

text \<open>
  Modelled from the spec: the triple key of the storage layer,
  \<^verbatim>\<open>is/<issuer>/sc/<schema>/sp/<purpose>\<close>.
\<close>

definition tripleKey :: "string \<Rightarrow> string \<Rightarrow> string \<Rightarrow> string" where
  "tripleKey issuer schema purpose = ''is/'' @ issuer @ ''/sc/'' @ schema @ ''/sp/'' @ purpose"

text \<open>
  Modelled from the spec: the watch key of the status list credential of a triple
  (\<^verbatim>\<open>Storage.GetStatusListCredentialWatchKey\<close>, defined outside \<^verbatim>\<open>service.go\<close>).
\<close>

definition GetStatusListCredentialWatchKey :: "string \<Rightarrow> string \<Rightarrow> string \<Rightarrow> WatchKey" where
  "GetStatusListCredentialWatchKey issuer schema purpose =
     \<lparr>wk_Namespace = ''status-list-credential'', wk_Key = tripleKey issuer schema purpose\<rparr>"

text \<open>Modelled from the spec: the watch key of the index pool of a triple.\<close>

definition GetStatusListIndexPoolWatchKey :: "string \<Rightarrow> string \<Rightarrow> string \<Rightarrow> WatchKey" where
  "GetStatusListIndexPoolWatchKey issuer schema purpose =
     \<lparr>wk_Namespace = ''status-list-index-pool'', wk_Key = tripleKey issuer schema purpose\<rparr>"

text \<open>Modelled from the spec: the watch key of the current-index cursor of a triple.\<close>

definition GetStatusListCurrentIndexWatchKey :: "string \<Rightarrow> string \<Rightarrow> string \<Rightarrow> WatchKey" where
  "GetStatusListCurrentIndexWatchKey issuer schema purpose =
     \<lparr>wk_Namespace = ''status-list-current-index'', wk_Key = tripleKey issuer schema purpose\<rparr>"

text \<open>
  Modelled from the spec: \<^verbatim>\<open>s.storage.GetCredential\<close>, defined outside \<^verbatim>\<open>service.go\<close>
  (the service has a method of the same name, hence the prefix). A credential is read by
  its local id; an unknown id is an error.
\<close>

definition Storage_GetCredential :: "store \<Rightarrow> string \<Rightarrow> error + StoredCredential" where
  "Storage_GetCredential db i =
     (case map_of (credentialNS db) i of
        None \<Rightarrow> Inl (CredentialNotFound i)
      | Some c \<Rightarrow> Inr c)"

text \<open>
  Modelled from the spec: \<^verbatim>\<open>s.storage.GetStatusListCredential\<close>, defined outside
  \<^verbatim>\<open>service.go\<close>. A status list credential is read by its local id among the records
  kept per triple.
\<close>

definition GetStatusListCredential :: "store \<Rightarrow> string \<Rightarrow> error + StoredCredential" where
  "GetStatusListCredential db i =
     (case find (\<lambda>c. sc_LocalCredentialID c = i) (map snd (statusListCredentialNS db)) of
        None \<Rightarrow> Inl (CredentialNotFound i)
      | Some c \<Rightarrow> Inr c)"

text \<open>
  Modelled from the spec: \<^verbatim>\<open>s.storage.GetStatusListCredentialKeyData\<close>, defined outside
  \<^verbatim>\<open>service.go\<close>. The key data of a triple is its status list record, if there is one.
\<close>

definition GetStatusListCredentialKeyData ::
  "store \<Rightarrow> string \<Rightarrow> string \<Rightarrow> string \<Rightarrow> error + StoredCredential option" where
  "GetStatusListCredentialKeyData db issuer schema purpose =
     Inr (map_of (statusListCredentialNS db) (tripleKey issuer schema purpose))"

text \<open>
  Modelled from the spec: \<^verbatim>\<open>s.storage.GetCredentialsByIssuerAndSchema\<close>, defined outside
  \<^verbatim>\<open>service.go\<close>. It collects all stored credentials with the given issuer and schema.
\<close>

definition GetCredentialsByIssuerAndSchema ::
  "store \<Rightarrow> string \<Rightarrow> string \<Rightarrow> error + StoredCredential list" where
  "GetCredentialsByIssuerAndSchema db issuer schema =
     Inr (filter (\<lambda>c. sc_Issuer c = issuer \<and> sc_Schema c = schema) (map snd (credentialNS db)))"

text \<open>
  Modelled from the spec: \<^verbatim>\<open>HasCredentialStatus\<close> of the stored record, defined outside
  \<^verbatim>\<open>service.go\<close>. A credential has a status when its \<^verbatim>\<open>credentialStatus\<close> field is
  present.
\<close>

definition HasCredentialStatus :: "StoredCredential \<Rightarrow> bool" where
  "HasCredentialStatus c = (vc_CredentialStatus (sc_Credential c) \<noteq> None)"

text \<open>
  Modelled from the spec: \<^verbatim>\<open>GetStatusPurpose\<close> of the stored record, defined outside
  \<^verbatim>\<open>service.go\<close>. The purpose is that of the status entry, the empty string without one.
\<close>

definition GetStatusPurpose :: "StoredCredential \<Rightarrow> string" where
  "GetStatusPurpose c =
     (case vc_CredentialStatus (sc_Credential c) of
        None \<Rightarrow> []
      | Some e \<Rightarrow> se_StatusPurpose e)"

section \<open>Collaborators\<close>

text \<open>
  The calls the SDK's credential builder receives. Whether the builder accepts a call is
  decided by the SDK, so it is a parameter of the model.
\<close>

datatype builder_call =
    SetID string
  | SetIssuer string
  | SetCredentialSubject CredentialSubject
  | AddContext string
  | SetCredentialSchema CredentialSchema
  | SetExpirationDate string
  | SetIssuanceDate string
  | SetCredentialStatus StatusList2021Entry
  | SetEvidence "json list"
  | Build VerifiableCredential

text \<open>
  What the service calls but does not define: request validation, the builder's checks, the
  service path of the configuration, the schema service, the failure of the credential copy, the key
  store, the SDK's key id qualification, key access and signing, and the validity checks
  of stored records and of store requests. Each is a field of \<open>env\<close>; the theorems hold
  for every environment unless they say otherwise.
\<close>

record env =
  requestIsValid :: "CreateCredentialRequest \<Rightarrow> error option"
  builderCheck :: "builder_call \<Rightarrow> error option"
  servicePath :: string
  Resolve :: "string \<Rightarrow> error + (json \<times> string)"
  IsCredentialValidForJSONSchema :: "VerifiableCredential \<Rightarrow> json \<Rightarrow> error option"
  CopyCredentialError :: "VerifiableCredential \<Rightarrow> error option"
  GetKey :: "string \<Rightarrow> error + StoredKey"
  FullyQualifiedVerificationMethodID :: "string \<Rightarrow> string \<Rightarrow> string"
  NewJWKKeyAccess :: "string \<Rightarrow> string \<Rightarrow> string \<Rightarrow> error option"
  SignVerifiableCredential :: "string \<Rightarrow> StoredKey \<Rightarrow> VerifiableCredential \<Rightarrow> error + string"
  storedIsValid :: "StoredCredential \<Rightarrow> bool"
  storeRequestIsValid :: "Container \<Rightarrow> error option"

text \<open>
  The choices one call makes outside the program's control: the UUID of the credential, the
  clock, the UUID of a new status list credential, and the random index draws.
\<close>

record rand =
  rnd_credentialID :: string
  rnd_now :: string
  rnd_statusListID :: string
  rnd_draws :: "nat list"

section \<open>Signing\<close>

text \<open>\<^verbatim>\<open>signCredentialJWT\<close> (service.go, lines 266-288).\<close>

definition signCredentialJWT :: "env \<Rightarrow> string \<Rightarrow> VerifiableCredential \<Rightarrow> error + string" where
  "signCredentialJWT s verificationMethodID cred =
     (let keyStoreID = FullyQualifiedVerificationMethodID s (vc_Issuer cred) verificationMethodID in
      case GetKey s keyStoreID of
        Inl err \<Rightarrow> Inl (Wrap ''getting key for signing credential'' err)
      | Inr gotKey \<Rightarrow>
          if key_Controller gotKey \<noteq> vc_Issuer cred then
            Inl (KeyControllerMismatch (key_Controller gotKey) (vc_Issuer cred) verificationMethodID)
          else if key_Revoked gotKey then Inl (CannotUseRevokedKey (key_ID gotKey))
          else
            (case NewJWKKeyAccess s verificationMethodID (key_ID gotKey) (key_Material gotKey) of
               Some err \<Rightarrow> Inl (Wrap ''creating key access for signing credential with key'' err)
             | None \<Rightarrow>
                 wrapE ''could not sign credential with key''
                   (SignVerifiableCredential s verificationMethodID gotKey cred)))"

section \<open>Storing\<close>

text \<open>
  Modelled from the spec: the subject DID of a stored record, read from the \<^verbatim>\<open>id\<close> of the
  credential subject.
\<close>

definition subjectID :: "CredentialSubject \<Rightarrow> string" where
  "subjectID subj =
     (case subj of
        SubjectData d \<Rightarrow> (case map_of d ''id'' of Some (JString i) \<Rightarrow> i | _ \<Rightarrow> [])
      | SubjectStatusList l \<Rightarrow> sl_ID l)"

text \<open>
  Modelled from the spec: the record the storage layer derives from a container, with the
  fields the specification lists for a stored credential.
\<close>

definition buildStoredCredential :: "Container \<Rightarrow> StoredCredential" where
  "buildStoredCredential c =
     \<lparr>sc_LocalCredentialID = ct_ID c,
      sc_FullyQualifiedVerificationMethodID = ct_FullyQualifiedVerificationMethodID c,
      sc_Credential = ct_Credential c,
      sc_CredentialJWT = ct_CredentialJWT c,
      sc_Issuer = vc_Issuer (ct_Credential c),
      sc_Subject = subjectID (vc_CredentialSubject (ct_Credential c)),
      sc_Schema = (case vc_CredentialSchema (ct_Credential c) of None \<Rightarrow> [] | Some sch \<Rightarrow> cs_ID sch),
      sc_Revoked = ct_Revoked c,
      sc_Suspended = ct_Suspended c\<rparr>"

text \<open>
  Modelled from the spec: \<^verbatim>\<open>StoreCredentialTx\<close>, defined outside \<^verbatim>\<open>service.go\<close>. A store
  request that is valid writes the record of the container under its local id.
\<close>

definition StoreCredentialTx :: "env \<Rightarrow> Tx \<Rightarrow> Container \<Rightarrow> error + Tx" where
  "StoreCredentialTx s tx c =
     (case storeRequestIsValid s c of
        Some err \<Rightarrow> Inl err
      | None \<Rightarrow> Inr (tx @ [WriteCredential (ct_ID c) (buildStoredCredential c)]))"

text \<open>
  Modelled from the spec: \<^verbatim>\<open>StoreStatusListCredentialTx\<close>, defined outside \<^verbatim>\<open>service.go\<close>.
  A store request that is valid writes the record of the status list container under the
  key of its triple.
\<close>

definition StoreStatusListCredentialTx ::
  "env \<Rightarrow> Tx \<Rightarrow> Container \<Rightarrow> StatusListCredentialMetadata \<Rightarrow> error + Tx" where
  "StoreStatusListCredentialTx s tx c slcMetadata =
     (case storeRequestIsValid s c of
        Some err \<Rightarrow> Inl err
      | None \<Rightarrow>
          Inr (tx @ [WriteStatusListCredential (wk_Key (statusListCredentialWatchKey slcMetadata))
                       (buildStoredCredential c)]))"

section \<open>Reading credentials\<close>

text \<open>\<^verbatim>\<open>GetCredential\<close> of the service (service.go, lines 339-359).\<close>

definition GetCredential :: "env \<Rightarrow> store \<Rightarrow> string \<Rightarrow> error + Container" where
  "GetCredential s db i =
     (case Storage_GetCredential db i of
        Inl err \<Rightarrow> Inl (Wrap ''could not get credential'' err)
      | Inr gotCred \<Rightarrow>
          if \<not> storedIsValid s gotCred then Inl (CredentialNotValid i)
          else Inr \<lparr>ct_ID = sc_LocalCredentialID gotCred,
                    ct_FullyQualifiedVerificationMethodID = [],
                    ct_Credential = sc_Credential gotCred,
                    ct_CredentialJWT = sc_CredentialJWT gotCred,
                    ct_Revoked = sc_Revoked gotCred,
                    ct_Suspended = sc_Suspended gotCred\<rparr>)"

text \<open>\<^verbatim>\<open>GetCredentialStatus\<close> (service.go, lines 388-403).\<close>

definition GetCredentialStatus :: "env \<Rightarrow> store \<Rightarrow> string \<Rightarrow> error + Status" where
  "GetCredentialStatus s db i =
     (case Storage_GetCredential db i of
        Inl err \<Rightarrow> Inl (Wrap ''could not get credential'' err)
      | Inr gotCred \<Rightarrow>
          if \<not> storedIsValid s gotCred then Inl (CredentialNotValid i)
          else Inr \<lparr>st_ID = [], st_Revoked = sc_Revoked gotCred, st_Suspended = sc_Suspended gotCred\<rparr>)"

text \<open>\<^verbatim>\<open>GetCredentialStatusList\<close> (service.go, lines 405-425).\<close>

definition GetCredentialStatusList :: "env \<Rightarrow> store \<Rightarrow> string \<Rightarrow> error + Container" where
  "GetCredentialStatusList s db i =
     (case GetStatusListCredential db i of
        Inl err \<Rightarrow> Inl (Wrap ''could not get credential'' err)
      | Inr gotCred \<Rightarrow>
          if \<not> storedIsValid s gotCred then Inl (CredentialNotValid i)
          else Inr \<lparr>ct_ID = sc_LocalCredentialID gotCred,
                    ct_FullyQualifiedVerificationMethodID = [],
                    ct_Credential = sc_Credential gotCred,
                    ct_CredentialJWT = sc_CredentialJWT gotCred,
                    ct_Revoked = False,
                    ct_Suspended = False\<rparr>)"

section \<open>Status list generation\<close>

text \<open>
  Modelled from the spec: the check of \<^verbatim>\<open>GenerateStatusList2021Credential\<close>, a function of
  the SDK. It fails with \<^verbatim>\<open>different status purpose\<close> on the first credential whose
  status entry has another purpose than the requested one, and otherwise collects the
  indices of the entries.
\<close>

fun prepareCredentialsForStatusList :: "string \<Rightarrow> VerifiableCredential list \<Rightarrow> error + nat list" where
  "prepareCredentialsForStatusList purpose [] = Inr []"
| "prepareCredentialsForStatusList purpose (cred # creds) =
     (case vc_CredentialStatus cred of
        None \<Rightarrow> Inl (External ''not using the StatusList2021 credentialStatus property'')
      | Some entry \<Rightarrow>
          if se_StatusPurpose entry \<noteq> purpose then
            Inl (DifferentStatusPurpose (vc_ID cred) (se_StatusPurpose entry) purpose)
          else
            bindE (prepareCredentialsForStatusList purpose creds)
              (\<lambda>indices. Inr (se_StatusListIndex entry # indices)))"

text \<open>
  Modelled from the spec: \<^verbatim>\<open>GenerateStatusList2021Credential\<close> of the SDK. When the check
  passes it yields a status list credential with the given URI, issuer and purpose whose
  bit \<open>i\<close> is set exactly when a credential of the list has index \<open>i\<close>.
\<close>

definition GenerateStatusList2021Credential ::
  "rand \<Rightarrow> string \<Rightarrow> string \<Rightarrow> string \<Rightarrow> VerifiableCredential list \<Rightarrow> error + VerifiableCredential" where
  "GenerateStatusList2021Credential rnd uri issuer purpose issuedCredentials =
     bindE (prepareCredentialsForStatusList purpose issuedCredentials)
       (\<lambda>statusListIndices.
          Inr \<lparr>vc_Context = [''https://www.w3.org/2018/credentials/v1''],
               vc_ID = uri,
               vc_Issuer = issuer,
               vc_IssuanceDate = rnd_now rnd,
               vc_ExpirationDate = [],
               vc_CredentialStatus = None,
               vc_CredentialSubject =
                 SubjectStatusList
                   \<lparr>sl_ID = uri, sl_StatusPurpose = purpose, sl_EncodedList = set statusListIndices\<rparr>,
               vc_CredentialSchema = None,
               vc_Evidence = []\<rparr>)"

section \<open>Updating the status of a credential\<close>

text \<open>\<^verbatim>\<open>parseIDFromURI\<close> (service.go, lines 582-588).\<close>

definition parseIDFromURI :: "string \<Rightarrow> error + string" where
  "parseIDFromURI uri =
     (if length uri < 36 then Inl (CannotInferID uri)
      else Inr (drop (length uri - 36) uri))"

text \<open>
  The loop of \<^verbatim>\<open>updateCredentialStatus\<close> (service.go, lines 526-538) over the credentials
  of the issuer and schema: the target is skipped, and a credential is taken when the
  request asserts a flag and the credential has a status and that flag.
\<close>

fun revokedOrSuspendedStatusCreds ::
  "UpdateCredentialStatusRequest \<Rightarrow> StoredCredential \<Rightarrow> StoredCredential list \<Rightarrow> VerifiableCredential list" where
  "revokedOrSuspendedStatusCreds request gotCred [] = []"
| "revokedOrSuspendedStatusCreds request gotCred (cred # creds) =
     (if vc_ID (sc_Credential cred) = vc_ID (sc_Credential gotCred) then
        revokedOrSuspendedStatusCreds request gotCred creds
      else if us_Revoked request \<and> vc_CredentialStatus (sc_Credential cred) \<noteq> None \<and> sc_Revoked cred then
        sc_Credential cred # revokedOrSuspendedStatusCreds request gotCred creds
      else if us_Suspended request \<and> vc_CredentialStatus (sc_Credential cred) \<noteq> None \<and> sc_Suspended cred then
        sc_Credential cred # revokedOrSuspendedStatusCreds request gotCred creds
      else revokedOrSuspendedStatusCreds request gotCred creds)"

text \<open>
  The credentials handed to the generator (service.go, lines 526-543): the loop's list,
  followed by the target when the request asserts a flag.
\<close>

definition statusListInput ::
  "UpdateCredentialStatusRequest \<Rightarrow> StoredCredential \<Rightarrow> StoredCredential list \<Rightarrow> VerifiableCredential list" where
  "statusListInput request gotCred creds =
     revokedOrSuspendedStatusCreds request gotCred creds @
     (if us_Revoked request = True \<or> us_Suspended request = True then [sc_Credential gotCred] else [])"

text \<open>
  \<^verbatim>\<open>updateCredentialStatus\<close> (service.go, lines 491-580). The type assertion on a missing
  \<^verbatim>\<open>credentialStatus\<close> panics. The credentials are read from the committed store, which
  does not yet hold the write of the target made two steps earlier.
\<close>

definition updateCredentialStatus ::
  "env \<Rightarrow> rand \<Rightarrow> store \<Rightarrow> Tx \<Rightarrow> StoredCredential \<Rightarrow> UpdateCredentialStatusRequest \<Rightarrow>
   StatusListCredentialMetadata \<Rightarrow> error + (Container \<times> Tx)" where
  "updateCredentialStatus s rnd db tx gotCred request slcMetadata =
     (let container =
            \<lparr>ct_ID = sc_LocalCredentialID gotCred,
             ct_FullyQualifiedVerificationMethodID = sc_FullyQualifiedVerificationMethodID gotCred,
             ct_Credential = sc_Credential gotCred,
             ct_CredentialJWT = sc_CredentialJWT gotCred,
             ct_Revoked = us_Revoked request,
             ct_Suspended = us_Suspended request\<rparr>
      in
      bindE (wrapE ''could not store credential'' (StoreCredentialTx s tx container)) (\<lambda>tx1.
      case vc_CredentialStatus (sc_Credential gotCred) of
        None \<Rightarrow> Inl (Panic ''interface conversion: interface is nil'')
      | Some entry \<Rightarrow>
          (let statusListCredentialURI = se_StatusListCredential entry in
           if length statusListCredentialURI = 0 then Inl ProblemGettingStatusListID
           else
             bindE (parseIDFromURI statusListCredentialURI) (\<lambda>statusListCredentialID.
             case GetCredentialsByIssuerAndSchema db (sc_Issuer gotCred) (sc_Schema gotCred) of
               Inl err \<Rightarrow> Inl (External ''problem with getting status list credential for issuer'')
             | Inr creds \<Rightarrow>
                 (let statusPurpose =
                        (if us_Suspended request then StatusSuspension else StatusRevocation)
                  in
                  bindE (wrapE ''could not generate status list''
                           (GenerateStatusList2021Credential rnd statusListCredentialURI
                              (sc_Issuer gotCred) statusPurpose (statusListInput request gotCred creds)))
                    (\<lambda>generated.
                  let generatedStatusListCredential =
                        generated\<lparr>vc_CredentialSchema := vc_CredentialSchema (sc_Credential gotCred)\<rparr>
                  in
                  bindE (wrapE ''could not sign status list credential''
                           (signCredentialJWT s (sc_FullyQualifiedVerificationMethodID gotCred)
                              generatedStatusListCredential))
                    (\<lambda>statusListCredJWT.
                  let statusListContainer =
                        \<lparr>ct_ID = statusListCredentialID,
                         ct_FullyQualifiedVerificationMethodID = sc_FullyQualifiedVerificationMethodID gotCred,
                         ct_Credential = generatedStatusListCredential,
                         ct_CredentialJWT = Some statusListCredJWT,
                         ct_Revoked = False,
                         ct_Suspended = False\<rparr>
                  in
                  bindE (wrapE ''could not store credential status list''
                           (StoreStatusListCredentialTx s tx1 statusListContainer slcMetadata))
                    (\<lambda>tx2. Inr (container, tx2)))))))))"

text \<open>\<^verbatim>\<open>updateCredentialStatusBusinessLogic\<close> (service.go, lines 457-489).\<close>

definition updateCredentialStatusBusinessLogic ::
  "env \<Rightarrow> rand \<Rightarrow> store \<Rightarrow> Tx \<Rightarrow> UpdateCredentialStatusRequest \<Rightarrow> StatusListCredentialMetadata \<Rightarrow>
   error + (Status \<times> Tx)" where
  "updateCredentialStatusBusinessLogic s rnd db tx request slcMetadata =
     (if us_Suspended request \<and> us_Revoked request then Inl CannotUpdateBoth
      else
        case Storage_GetCredential db (us_ID request) of
          Inl err \<Rightarrow> Inl (Wrap ''could not get credential'' err)
        | Inr gotCred \<Rightarrow>
            if \<not> storedIsValid s gotCred then Inl (CredentialNotValid (us_ID request))
            else if sc_Revoked gotCred = us_Revoked request \<and> sc_Suspended gotCred = us_Suspended request then
              Inr (\<lparr>st_ID = [], st_Revoked = sc_Revoked gotCred, st_Suspended = sc_Suspended gotCred\<rparr>, tx)
            else
              (case updateCredentialStatus s rnd db tx gotCred request slcMetadata of
                 Inl err \<Rightarrow> Inl (Wrap ''updating credential'' err)
               | Inr (container, tx') \<Rightarrow>
                   Inr (\<lparr>st_ID = [], st_Revoked = ct_Revoked container,
                         st_Suspended = ct_Suspended container\<rparr>, tx')))"

text \<open>\<^verbatim>\<open>updateCredentialStatusFunc\<close> (service.go, lines 451-455): the closure given to Execute.\<close>

definition updateCredentialStatusFunc ::
  "env \<Rightarrow> rand \<Rightarrow> UpdateCredentialStatusRequest \<Rightarrow> StatusListCredentialMetadata \<Rightarrow>
   store \<Rightarrow> Tx \<Rightarrow> error + (Status \<times> Tx)" where
  "updateCredentialStatusFunc s rnd request slcMetadata =
     (\<lambda>db tx. updateCredentialStatusBusinessLogic s rnd db tx request slcMetadata)"

text \<open>
  \<^verbatim>\<open>statusListCredentialWatchKey\<close> (service.go, lines 702-728). When the triple has no
  status list credential the source wraps a nil error, which is nil: the function returns
  no key and no error.
\<close>

text \<open>The function is named with a suffix: its own name is a field of the metadata record.\<close>

definition statusListCredentialWatchKeyOf :: "store \<Rightarrow> string \<Rightarrow> error + WatchKey option" where
  "statusListCredentialWatchKeyOf db i =
     (case Storage_GetCredential db i of
        Inl err \<Rightarrow> Inl (Wrap ''reading credential'' err)
      | Inr gotCred \<Rightarrow>
          if \<not> HasCredentialStatus gotCred then
            Inl (NoCredentialStatusField (sc_LocalCredentialID gotCred))
          else
            (let statusPurpose = GetStatusPurpose gotCred in
             if length statusPurpose = 0 then Inl StatusPurposeNotDerived
             else
               case GetStatusListCredentialKeyData db (sc_Issuer gotCred) (sc_Schema gotCred) statusPurpose of
                 Inl err \<Rightarrow> Inl (Wrap ''getting status list watch key uuid data'' err)
               | Inr None \<Rightarrow> Inr None
               | Inr (Some statusListCredential) \<Rightarrow>
                   Inr (Some (GetStatusListCredentialWatchKey (sc_Issuer gotCred) (sc_Schema gotCred)
                                statusPurpose))))"

definition emptyWatchKey :: WatchKey where
  "emptyWatchKey = \<lparr>wk_Namespace = [], wk_Key = []\<rparr>"

text \<open>
  \<^verbatim>\<open>UpdateCredentialStatus\<close> (service.go, lines 427-449). Dereferencing the missing watch
  key panics before the transaction starts.
\<close>

definition UpdateCredentialStatus ::
  "env \<Rightarrow> rand \<Rightarrow> UpdateCredentialStatusRequest \<Rightarrow> store \<Rightarrow> (error + Status) \<times> store" where
  "UpdateCredentialStatus s rnd request db =
     (case statusListCredentialWatchKeyOf db (us_ID request) of
        Inl err \<Rightarrow> (Inl err, db)
      | Inr None \<Rightarrow> (Inl (Panic ''nil pointer dereference''), db)
      | Inr (Some watchKey) \<Rightarrow>
          (let slcMetadata =
                 \<lparr>statusListCredentialWatchKey = watchKey,
                  statusListIndexPoolWatchKey = emptyWatchKey,
                  statusListCurrentIndexWatchKey = emptyWatchKey\<rparr>
           in
           case Execute (updateCredentialStatusFunc s rnd request slcMetadata) [watchKey] db of
             (Inl err, db') \<Rightarrow> (Inl (Wrap ''execute'' err), db')
           | (Inr response, db') \<Rightarrow> (Inr response, db')))"

section \<open>Creating a credential\<close>

text \<open>
  Modelled from the spec: \<^verbatim>\<open>hasStatus\<close> of the request, defined outside \<^verbatim>\<open>service.go\<close>.
  A request asks for a status when it is revocable or suspendable.
\<close>

definition hasStatus :: "CreateCredentialRequest \<Rightarrow> bool" where
  "hasStatus request = (rq_Suspendable request \<or> rq_Revocable request)"

text \<open>
  Modelled from the spec: \<^verbatim>\<open>isStatusValid\<close> of the request, defined outside
  \<^verbatim>\<open>service.go\<close>. The status is valid unless the request is both revocable and
  suspendable.
\<close>

definition isStatusValid :: "CreateCredentialRequest \<Rightarrow> bool" where
  "isStatusValid request = (\<not> (rq_Revocable request \<and> rq_Suspendable request))"

text \<open>
  Modelled from the spec: \<^verbatim>\<open>hasEvidence\<close> of the request, defined outside \<^verbatim>\<open>service.go\<close>.
  Evidence is present when the list is not empty.
\<close>

definition hasEvidence :: "CreateCredentialRequest \<Rightarrow> bool" where
  "hasEvidence request = (rq_Evidence request \<noteq> [])"

text \<open>
  Modelled from the spec: \<^verbatim>\<open>validateEvidence\<close> of the request, defined outside
  \<^verbatim>\<open>service.go\<close>. Each element must be an object with both \<^verbatim>\<open>id\<close> and \<^verbatim>\<open>type\<close>.
\<close>

fun validateEvidence :: "json list \<Rightarrow> error option" where
  "validateEvidence [] = None"
| "validateEvidence (JObject m # rest) =
     (if map_of m ''id'' = None \<or> map_of m ''type'' = None then Some EvidenceMissingIDOrType
      else validateEvidence rest)"
| "validateEvidence (e # rest) = Some InvalidEvidenceFormat"

text \<open>
  \<^verbatim>\<open>credint.CopyCredential\<close>: a deep copy, equal to the credential when it succeeds.
\<close>

definition CopyCredential :: "env \<Rightarrow> VerifiableCredential \<Rightarrow> error + VerifiableCredential" where
  "CopyCredential s cred =
     (case CopyCredentialError s cred of Some err \<Rightarrow> Inl err | None \<Rightarrow> Inr cred)"

text \<open>A call of the builder: the SDK's check, its error wrapped with the caller's message.\<close>

definition builderCall :: "env \<Rightarrow> builder_call \<Rightarrow> string \<Rightarrow> error + unit" where
  "builderCall s call msg =
     (case builderCheck s call of Some err \<Rightarrow> Inl (Wrap msg err) | None \<Rightarrow> Inr ())"

definition NewVerifiableCredentialBuilder :: VerifiableCredential where
  "NewVerifiableCredentialBuilder =
     \<lparr>vc_Context = [''https://www.w3.org/2018/credentials/v1''],
      vc_ID = [],
      vc_Issuer = [],
      vc_IssuanceDate = [],
      vc_ExpirationDate = [],
      vc_CredentialStatus = None,
      vc_CredentialSubject = SubjectData [],
      vc_CredentialSchema = None,
      vc_Evidence = []\<rparr>"

text \<open>
  Modelled from the spec: the draw of an index (section 4.3), defined outside
  \<^verbatim>\<open>service.go\<close>. A candidate is a draw reduced to the range below \<open>2 ^ 17\<close>; the first
  candidate absent from the pool is taken.
\<close>

definition drawIndex :: "nat list \<Rightarrow> nat list \<Rightarrow> error + nat" where
  "drawIndex draws pool =
     (case find (\<lambda>i. i \<notin> set pool) (map (\<lambda>d. d mod 131072) draws) of
        None \<Rightarrow> Inl NoFreeIndex
      | Some i \<Rightarrow> Inr i)"

text \<open>
  Modelled from the spec: \<^verbatim>\<open>createStatusListEntryForCredential\<close> (section 4.3), defined
  outside \<^verbatim>\<open>service.go\<close>. When the triple has no status list credential, one is
  generated over the empty list, signed with the issuer's key and written together with an
  empty pool and a fresh cursor. Then an index is drawn, added to the pool, the cursor is
  advanced, and the entry is returned.
\<close>

definition createStatusListEntryForCredential ::
  "env \<Rightarrow> rand \<Rightarrow> store \<Rightarrow> string \<Rightarrow> CreateCredentialRequest \<Rightarrow> Tx \<Rightarrow> StatusListCredentialMetadata \<Rightarrow>
   error + (StatusList2021Entry \<times> Tx)" where
  "createStatusListEntryForCredential s rnd db credID request tx slcMetadata =
     (let statusPurpose = (if rq_Suspendable request then StatusSuspension else StatusRevocation);
          poolKey = wk_Key (statusListIndexPoolWatchKey slcMetadata);
          cursorKey = wk_Key (statusListCurrentIndexWatchKey slcMetadata)
      in
      bindE (GetStatusListCredentialKeyData db (rq_Issuer request) (rq_SchemaID request) statusPurpose)
        (\<lambda>existing.
      bindE
        (case existing of
           Some statusListCredential \<Rightarrow> Inr (vc_ID (sc_Credential statusListCredential), tx)
         | None \<Rightarrow>
             (let uri = servicePath s @ ''/status/'' @ rnd_statusListID rnd in
              bindE (GenerateStatusList2021Credential rnd uri (rq_Issuer request) statusPurpose [])
                (\<lambda>generated.
              bindE (signCredentialJWT s (rq_FullyQualifiedVerificationMethodID request) generated)
                (\<lambda>jwt.
              bindE (StoreStatusListCredentialTx s tx
                       \<lparr>ct_ID = rnd_statusListID rnd,
                        ct_FullyQualifiedVerificationMethodID = rq_FullyQualifiedVerificationMethodID request,
                        ct_Credential = generated,
                        ct_CredentialJWT = Some jwt,
                        ct_Revoked = False,
                        ct_Suspended = False\<rparr> slcMetadata)
                (\<lambda>tx1. Inr (uri, tx1 @ [WriteIndexPool poolKey [], WriteCurrentIndex cursorKey 0]))))))
        (\<lambda>(uri, tx1).
      let pool = (case existing of
                    None \<Rightarrow> []
                  | Some statusListCredential \<Rightarrow>
                      (case map_of (statusListIndexPoolNS db) poolKey of None \<Rightarrow> [] | Some p \<Rightarrow> p));
          cursor = (case existing of
                      None \<Rightarrow> 0
                    | Some statusListCredential \<Rightarrow>
                        (case map_of (statusListCurrentIndexNS db) cursorKey of None \<Rightarrow> 0 | Some c \<Rightarrow> c))
      in
      bindE (drawIndex (rnd_draws rnd) pool) (\<lambda>index.
        Inr (\<lparr>se_ID = credID @ ''/status'',
              se_StatusPurpose = statusPurpose,
              se_StatusListIndex = index,
              se_StatusListCredential = uri\<rparr>,
             tx1 @ [WriteIndexPool poolKey (index # pool), WriteCurrentIndex cursorKey (Suc cursor)])))))"

text \<open>
  The assembly of the credential in \<^verbatim>\<open>createCredential\<close> (service.go, lines 146-235),
  one definition for each block of the source. The builder is the credential under
  construction: a setter that the SDK accepts assigns its field.
\<close>

text \<open>
  Lines 146-167: id, issuer, the subject conflict check and the subject. The subject is
  the data map of the request itself, and setting \<^verbatim>\<open>id\<close> in a nil map panics.
\<close>

definition setIdentity :: "env \<Rightarrow> rand \<Rightarrow> CreateCredentialRequest \<Rightarrow> error + VerifiableCredential" where
  "setIdentity s rnd request =
     (let credentialID = rnd_credentialID rnd;
          credentialURI = servicePath s @ ''/'' @ credentialID
      in
      bindE (builderCall s (SetID credentialURI) ''could not build credential when setting id'') (\<lambda>_.
      let b1 = NewVerifiableCredentialBuilder\<lparr>vc_ID := credentialURI\<rparr> in
      bindE (builderCall s (SetIssuer (rq_Issuer request))
               ''could not build credential when setting issuer'') (\<lambda>_.
      let b2 = b1\<lparr>vc_Issuer := rq_Issuer request\<rparr> in
      case (case rq_Data request of
              None \<Rightarrow> None
            | Some d \<Rightarrow>
                (case map_of d ''id'' of
                   Some i \<Rightarrow> if i \<noteq> JString (rq_Subject request) then Some i else None
                 | None \<Rightarrow> None)) of
        Some i \<Rightarrow> Inl (CannotSetSubject (rq_Subject request) i)
      | None \<Rightarrow>
          (case rq_Data request of
             None \<Rightarrow> Inl (Panic ''assignment to entry in nil map'')
           | Some d \<Rightarrow>
               (let subject = SubjectData (AList.update ''id'' (JString (rq_Subject request)) d) in
                bindE (builderCall s (SetCredentialSubject subject) ''could not set subject'')
                  (\<lambda>_. Inr (b2\<lparr>vc_CredentialSubject := subject\<rparr>)))))))"

text \<open>Lines 169-174: the context, when the request has one.\<close>

definition setContext :: "env \<Rightarrow> CreateCredentialRequest \<Rightarrow> VerifiableCredential \<Rightarrow> error + VerifiableCredential" where
  "setContext s request b =
     (if rq_Context request \<noteq> [] then
        bindE (builderCall s (AddContext (rq_Context request)) ''could not add context to credential'')
          (\<lambda>_. Inr (b\<lparr>vc_Context := vc_Context b @ [rq_Context request]\<rparr>))
      else Inr b)"

text \<open>Lines 176-192: the schema, resolved and kept for the validation of the built credential.\<close>

definition setSchema ::
  "env \<Rightarrow> CreateCredentialRequest \<Rightarrow> VerifiableCredential \<Rightarrow> error + (json option \<times> VerifiableCredential)" where
  "setSchema s request b =
     (if rq_SchemaID request \<noteq> [] then
        (case Resolve s (rq_SchemaID request) of
           Inl err \<Rightarrow> Inl (Wrap ''failed to create credential; could not get schema'' err)
         | Inr (gotSchema, schemaType) \<Rightarrow>
             (let credSchema = \<lparr>cs_ID = rq_SchemaID request, cs_Type = schemaType\<rparr> in
              bindE (builderCall s (SetCredentialSchema credSchema)
                       ''could not set JSON Schema for credential'')
                (\<lambda>_. Inr (Some gotSchema, b\<lparr>vc_CredentialSchema := Some credSchema\<rparr>))))
      else Inr (None, b))"

text \<open>Lines 194-203: the expiry, when the request has one, and the issuance date.\<close>

definition setDates ::
  "env \<Rightarrow> rand \<Rightarrow> CreateCredentialRequest \<Rightarrow> VerifiableCredential \<Rightarrow> error + VerifiableCredential" where
  "setDates s rnd request b =
     bindE (if rq_Expiry request \<noteq> [] then
              bindE (builderCall s (SetExpirationDate (rq_Expiry request))
                       ''could not set expiry for credential'')
                (\<lambda>_. Inr (b\<lparr>vc_ExpirationDate := rq_Expiry request\<rparr>))
            else Inr b) (\<lambda>b'.
     bindE (builderCall s (SetIssuanceDate (rnd_now rnd)) ''could not set credential issuance date'')
       (\<lambda>_. Inr (b'\<lparr>vc_IssuanceDate := rnd_now rnd\<rparr>)))"

text \<open>Lines 205-213: the status entry, when the request asks for a status.\<close>

definition setStatus ::
  "env \<Rightarrow> rand \<Rightarrow> store \<Rightarrow> CreateCredentialRequest \<Rightarrow> Tx \<Rightarrow> StatusListCredentialMetadata \<Rightarrow>
   VerifiableCredential \<Rightarrow> error + (VerifiableCredential \<times> Tx)" where
  "setStatus s rnd db request tx statusMetadata b =
     (if hasStatus request then
        bindE (wrapE ''could not create status list entry for credential''
                 (createStatusListEntryForCredential s rnd db (vc_ID b) request tx statusMetadata))
          (\<lambda>(statusEntry, tx1).
        bindE (builderCall s (SetCredentialStatus statusEntry) ''could not set credential status'')
          (\<lambda>_. Inr (b\<lparr>vc_CredentialStatus := Some statusEntry\<rparr>, tx1)))
      else Inr (b, tx))"

text \<open>Lines 215-223: the evidence, when the request has some.\<close>

definition setEvidence :: "env \<Rightarrow> CreateCredentialRequest \<Rightarrow> VerifiableCredential \<Rightarrow> error + VerifiableCredential" where
  "setEvidence s request b =
     (if hasEvidence request then
        (case validateEvidence (rq_Evidence request) of
           Some err \<Rightarrow> Inl (Wrap ''validating evidence'' err)
         | None \<Rightarrow>
             bindE (builderCall s (SetEvidence (rq_Evidence request)) ''could not set evidence'')
               (\<lambda>_. Inr (b\<lparr>vc_Evidence := rq_Evidence request\<rparr>)))
      else Inr b)"

text \<open>Lines 225-235: the build, and the check against the schema when one is known.\<close>

definition buildAndValidate ::
  "env \<Rightarrow> json option \<Rightarrow> VerifiableCredential \<Rightarrow> error + VerifiableCredential" where
  "buildAndValidate s knownSchema b =
     bindE (builderCall s (Build b) ''could not build credential'') (\<lambda>_.
     case knownSchema of
       None \<Rightarrow> Inr b
     | Some sch \<Rightarrow>
         (case IsCredentialValidForJSONSchema s b sch of
            Some err \<Rightarrow> Inl (Wrap ''credential data does not comply with the provided schema'' err)
          | None \<Rightarrow> Inr b))"

definition buildCredential ::
  "env \<Rightarrow> rand \<Rightarrow> store \<Rightarrow> CreateCredentialRequest \<Rightarrow> Tx \<Rightarrow> StatusListCredentialMetadata \<Rightarrow>
   error + (VerifiableCredential \<times> Tx)" where
  "buildCredential s rnd db request tx statusMetadata =
     bindE (setIdentity s rnd request) (\<lambda>b3.
     bindE (setContext s request b3) (\<lambda>b4.
     bindE (setSchema s request b4) (\<lambda>(knownSchema, b5).
     bindE (setDates s rnd request b5) (\<lambda>b7.
     bindE (setStatus s rnd db request tx statusMetadata b7) (\<lambda>(b8, tx1).
     bindE (setEvidence s request b8) (\<lambda>b9.
     bindE (buildAndValidate s knownSchema b9) (\<lambda>cred.
     Inr (cred, tx1))))))))"

text \<open>
  \<^verbatim>\<open>createCredential\<close> (service.go, lines 139-264): the status check (139-144), the
  assembly above, then copy, signature and the write of the credential with both flags
  false (237-263).
\<close>

definition createCredential ::
  "env \<Rightarrow> rand \<Rightarrow> store \<Rightarrow> CreateCredentialRequest \<Rightarrow> Tx \<Rightarrow> StatusListCredentialMetadata \<Rightarrow>
   error + (Container \<times> Tx)" where
  "createCredential s rnd db request tx statusMetadata =
     (if \<not> isStatusValid request then Inl AtMostOneStatus
      else
        bindE (buildCredential s rnd db request tx statusMetadata) (\<lambda>(cred, tx1).
        bindE (wrapE ''could not copy credential'' (CopyCredential s cred)) (\<lambda>credCopy.
        bindE (wrapE ''signing credential''
                 (signCredentialJWT s (rq_FullyQualifiedVerificationMethodID request) credCopy))
          (\<lambda>credJWT.
        let container =
              \<lparr>ct_ID = rnd_credentialID rnd,
               ct_FullyQualifiedVerificationMethodID = rq_FullyQualifiedVerificationMethodID request,
               ct_Credential = cred,
               ct_CredentialJWT = Some credJWT,
               ct_Revoked = False,
               ct_Suspended = False\<rparr>
        in
        bindE (wrapE ''saving credential'' (StoreCredentialTx s tx1 container)) (\<lambda>tx2.
        Inr (container, tx2))))))"

text \<open>\<^verbatim>\<open>createCredentialFunc\<close> (service.go, lines 133-137): the closure given to Execute.\<close>

definition createCredentialFunc ::
  "env \<Rightarrow> rand \<Rightarrow> CreateCredentialRequest \<Rightarrow> StatusListCredentialMetadata \<Rightarrow>
   store \<Rightarrow> Tx \<Rightarrow> error + (Container \<times> Tx)" where
  "createCredentialFunc s rnd request slcMetadata =
     (\<lambda>db tx. createCredential s rnd db request tx slcMetadata)"

text \<open>
  The watch keys and metadata of a request (service.go, lines 98-117 and 606-627): the
  three keys of its triple when it asks for one valid status, nothing otherwise.
\<close>

definition emptyMetadata :: StatusListCredentialMetadata where
  "emptyMetadata =
     \<lparr>statusListCredentialWatchKey = emptyWatchKey,
      statusListIndexPoolWatchKey = emptyWatchKey,
      statusListCurrentIndexWatchKey = emptyWatchKey\<rparr>"

definition statusWatchKeys :: "CreateCredentialRequest \<Rightarrow> WatchKey list \<times> StatusListCredentialMetadata" where
  "statusWatchKeys request =
     (if hasStatus request \<and> isStatusValid request then
        (let statusPurpose = (if rq_Suspendable request then StatusSuspension else StatusRevocation);
             k1 = GetStatusListCredentialWatchKey (rq_Issuer request) (rq_SchemaID request) statusPurpose;
             k2 = GetStatusListIndexPoolWatchKey (rq_Issuer request) (rq_SchemaID request) statusPurpose;
             k3 = GetStatusListCurrentIndexWatchKey (rq_Issuer request) (rq_SchemaID request) statusPurpose
         in ([k1, k2, k3],
             \<lparr>statusListCredentialWatchKey = k1,
              statusListIndexPoolWatchKey = k2,
              statusListCurrentIndexWatchKey = k3\<rparr>))
      else ([], emptyMetadata))"

text \<open>\<^verbatim>\<open>CreateCredential\<close> (service.go, lines 93-131).\<close>

definition CreateCredential ::
  "env \<Rightarrow> rand \<Rightarrow> CreateCredentialRequest \<Rightarrow> store \<Rightarrow> (error + Container) \<times> store" where
  "CreateCredential s rnd request db =
     (case requestIsValid s request of
        Some err \<Rightarrow> (Inl (Wrap ''validating request'' err), db)
      | None \<Rightarrow>
          (let (watchKeys, statusMetadata) = statusWatchKeys request in
           case Execute (createCredentialFunc s rnd request statusMetadata) watchKeys db of
             (Inl err, db') \<Rightarrow> (Inl (Wrap ''execute'' err), db')
           | (Inr response, db') \<Rightarrow> (Inr response, db')))"

section \<open>Batch creation\<close>

subsection \<open>Transactions next to other writers\<close>

text \<open>
  The result of an operation that may panic: it returns a value or an error together with
  the store it leaves, or it panics. Nothing is said about the store after a panic.
\<close>

datatype 'a outcome =
    Returns "error + 'a" store
  | Panics string

text \<open>Modelled from the spec: the key of the storage engine a write changes.\<close>

fun writeKey :: "write_op \<Rightarrow> WatchKey" where
  "writeKey (WriteCredential k v) = \<lparr>wk_Namespace = ''credential'', wk_Key = k\<rparr>"
| "writeKey (WriteStatusListCredential k v) = \<lparr>wk_Namespace = ''status-list-credential'', wk_Key = k\<rparr>"
| "writeKey (WriteIndexPool k v) = \<lparr>wk_Namespace = ''status-list-index-pool'', wk_Key = k\<rparr>"
| "writeKey (WriteCurrentIndex k v) = \<lparr>wk_Namespace = ''status-list-current-index'', wk_Key = k\<rparr>"

text \<open>
  Modelled from the spec: a watched key has changed when a write committed by another
  client since the start of the attempt is to that key.
\<close>

definition changesWatched :: "Tx \<Rightarrow> WatchKey list \<Rightarrow> bool" where
  "changesWatched others watchKeys = list_ex (\<lambda>w. writeKey w \<in> set watchKeys) others"

text \<open>
  Modelled from the spec: \<^verbatim>\<open>Execute(fn, watchKeys)\<close> under optimistic concurrency (section
  4.1), defined outside \<^verbatim>\<open>service.go\<close>. The list of write sets is what other clients commit:
  its head is committed while the current attempt runs, between its start and its commit.
  An attempt runs \<open>fn\<close> on the store at its start and on a fresh transaction. When \<open>fn\<close>
  returns an error the write set is discarded and the error is returned. When \<open>fn\<close>
  succeeds and a watched key has changed, the write set is discarded and \<open>fn\<close> is run
  again from scratch on the store as it is then; otherwise the write set is committed.
  With no other writer left the attempt is the last one. The number of write sets of other
  clients is finite and taken to be within the retry budget. \<open>fn\<close> is given the number of
  the attempt and the state of the process it may change (the maps its closures hold);
  that state is kept from one attempt to the next. A panic of \<open>fn\<close> unwinds through
  \<^verbatim>\<open>Execute\<close>.
\<close>

fun ExecuteUnder ::
  "(nat \<Rightarrow> 'h \<Rightarrow> store \<Rightarrow> Tx \<Rightarrow> error + (('a \<times> Tx) \<times> 'h)) \<Rightarrow> WatchKey list \<Rightarrow> Tx list \<Rightarrow>
   nat \<Rightarrow> 'h \<Rightarrow> store \<Rightarrow> 'a outcome" where
  "ExecuteUnder fn watchKeys [] n h db =
     (case fn n h db [] of
        Inl err \<Rightarrow> (case err of Panic m \<Rightarrow> Panics m | _ \<Rightarrow> Returns (Inl err) db)
      | Inr ((v, tx), h') \<Rightarrow> Returns (Inr v) (commit tx db))"
| "ExecuteUnder fn watchKeys (others # rest) n h db =
     (case fn n h db [] of
        Inl err \<Rightarrow> (case err of Panic m \<Rightarrow> Panics m | _ \<Rightarrow> Returns (Inl err) (commit others db))
      | Inr ((v, tx), h') \<Rightarrow>
          if changesWatched others watchKeys then
            ExecuteUnder fn watchKeys rest (Suc n) h' (commit others db)
          else Returns (Inr v) (commit tx (commit others db)))"

text \<open>\<^verbatim>\<open>errors.Wrap(err, "execute")\<close> on the error \<^verbatim>\<open>Execute\<close> returns (service.go, lines 650-652).\<close>

definition wrapExecute :: "'a outcome \<Rightarrow> 'a outcome" where
  "wrapExecute r =
     (case r of
        Panics m \<Rightarrow> Panics m
      | Returns (Inl err) db \<Rightarrow> Returns (Inl (Wrap ''execute'' err)) db
      | Returns (Inr v) db \<Rightarrow> Returns (Inr v) db)"

subsection \<open>The requests of a batch and their data maps\<close>

text \<open>
  The \<^verbatim>\<open>Data\<close> field of a request is a reference to a Go map, and \<^verbatim>\<open>createCredential\<close>
  writes \<^verbatim>\<open>id\<close> into that map (service.go, lines 163-164). An item of a batch is therefore
  a request together with the address of its map: two items with the same address share
  one map, and \<open>rq_Data\<close> is what the map holds when the batch is called. The maps written
  so far are kept by address.
\<close>

type_synonym DataMaps = "nat \<Rightarrow> (string \<times> json) list option"

text \<open>The request as its closure finds it: the data are the current content of its map.\<close>

definition currentRequest :: "DataMaps \<Rightarrow> nat \<times> CreateCredentialRequest \<Rightarrow> CreateCredentialRequest" where
  "currentRequest h item =
     (case h (fst item) of
        None \<Rightarrow> snd item
      | Some d \<Rightarrow> (snd item)\<lparr>rq_Data := Some d\<rparr>)"

text \<open>
  The closure \<^verbatim>\<open>s.createCredentialFunc(request, statusMetadata)\<close> of an item (service.go,
  line 629), with the choices \<open>rndAt n\<close> in attempt \<open>n\<close>. The credential it creates has the
  map of the request as its subject, with \<^verbatim>\<open>id\<close> written into it; the items that follow see
  that content. After an error no further closure runs.
\<close>

definition batchItemFunc ::
  "env \<Rightarrow> (nat \<Rightarrow> rand) \<Rightarrow> nat \<times> CreateCredentialRequest \<Rightarrow> StatusListCredentialMetadata \<Rightarrow>
   nat \<Rightarrow> DataMaps \<Rightarrow> store \<Rightarrow> Tx \<Rightarrow> error + ((Container \<times> Tx) \<times> DataMaps)" where
  "batchItemFunc s rndAt item statusMetadata =
     (\<lambda>n h db tx.
        case createCredentialFunc s (rndAt n) (currentRequest h item) statusMetadata db tx of
          Inl err \<Rightarrow> Inl err
        | Inr (container, tx1) \<Rightarrow>
            Inr ((container, tx1),
                 (case vc_CredentialSubject (ct_Credential container) of
                    SubjectData d \<Rightarrow> h(fst item \<mapsto> d)
                  | SubjectStatusList l \<Rightarrow> h)))"

subsection \<open>The batch\<close>

text \<open>
  \<^verbatim>\<open>BatchCreateCredentials\<close> (service.go, lines 601-660). The first loop (605-630) collects
  the watch keys and one closure for each request; the request at position \<open>i\<close> makes the
  choices \<open>rnds n i\<close> in attempt \<open>n\<close>. The second loop (635-645), the body of the transaction,
  runs the closures in order on the same transaction and stops at the first error. The
  write sets of other clients are an argument of the operation.
\<close>

fun batchCreateSetup ::
  "env \<Rightarrow> (nat \<Rightarrow> nat \<Rightarrow> rand) \<Rightarrow> nat \<Rightarrow> (nat \<times> CreateCredentialRequest) list \<Rightarrow>
   WatchKey list \<times>
   (nat \<Rightarrow> DataMaps \<Rightarrow> store \<Rightarrow> Tx \<Rightarrow> error + ((Container \<times> Tx) \<times> DataMaps)) list" where
  "batchCreateSetup s rnds i [] = ([], [])"
| "batchCreateSetup s rnds i (request # rest) =
     (let (keys, statusMetadata) = statusWatchKeys (snd request);
          (watchKeys, funcs) = batchCreateSetup s rnds (Suc i) rest
      in (keys @ watchKeys, batchItemFunc s (\<lambda>n. rnds n i) request statusMetadata # funcs))"

fun batchCreateBody ::
  "(nat \<Rightarrow> DataMaps \<Rightarrow> store \<Rightarrow> Tx \<Rightarrow> error + ((Container \<times> Tx) \<times> DataMaps)) list \<Rightarrow>
   nat \<Rightarrow> DataMaps \<Rightarrow> store \<Rightarrow> Tx \<Rightarrow> error + ((Container list \<times> Tx) \<times> DataMaps)" where
  "batchCreateBody [] n h db tx = Inr (([], tx), h)"
| "batchCreateBody (f # funcs) n h db tx =
     (case f n h db tx of
        Inl err \<Rightarrow> Inl err
      | Inr ((container, tx1), h1) \<Rightarrow>
          (case batchCreateBody funcs n h1 db tx1 of
             Inl err \<Rightarrow> Inl err
           | Inr ((containers, tx2), h2) \<Rightarrow> Inr ((container # containers, tx2), h2)))"

definition BatchCreateCredentials ::
  "env \<Rightarrow> (nat \<Rightarrow> nat \<Rightarrow> rand) \<Rightarrow> Tx list \<Rightarrow> (nat \<times> CreateCredentialRequest) list \<Rightarrow> store \<Rightarrow>
   Container list outcome" where
  "BatchCreateCredentials s rnds interference requests db =
     (let (watchKeys, funcs) = batchCreateSetup s rnds 0 requests in
      wrapExecute (ExecuteUnder (batchCreateBody funcs) watchKeys interference 0 Map.empty db))"


section \<open>An example deployment\<close>

text \<open>
  A concrete environment and store on which the theorems below are exercised. The issuer
  \<^verbatim>\<open>did:key:A\<close> has a usable key and a revoked one. The store holds two suspended
  credentials \<open>A\<close> and \<open>B\<close> of one suspension triple, a credential \<open>N\<close> without status and
  an unrevoked revocable credential \<open>R\<close>, with the status list credentials of both triples.
\<close>

definition exampleEnv :: env where
  "exampleEnv =
     \<lparr>requestIsValid = (\<lambda>r. if rq_Issuer r = [] \<or> rq_Subject r = [] then Some (External ''required'') else None),
      builderCheck = (\<lambda>c. None),
      servicePath = ''svc'',
      Resolve = (\<lambda>i. Inl (External ''schema not found'')),
      IsCredentialValidForJSONSchema = (\<lambda>c j. None),
      CopyCredentialError = (\<lambda>c. None),
      GetKey = (\<lambda>k. if k = ''did:key:A#k1'' then
                        Inr \<lparr>key_ID = k, key_Controller = ''did:key:A'', key_Revoked = False, key_Material = ''sk1''\<rparr>
                      else if k = ''did:key:A#k2'' then
                        Inr \<lparr>key_ID = k, key_Controller = ''did:key:A'', key_Revoked = True, key_Material = ''sk2''\<rparr>
                      else Inl (External ''key not found'')),
      FullyQualifiedVerificationMethodID = (\<lambda>d v. d @ v),
      NewJWKKeyAccess = (\<lambda>v i k. None),
      SignVerifiableCredential = (\<lambda>v k c. Inr (''jwt/'' @ key_Material k @ ''/'' @ vc_ID c)),
      storedIsValid = (\<lambda>c. sc_LocalCredentialID c \<noteq> [] \<and> sc_CredentialJWT c \<noteq> None),
      storeRequestIsValid = (\<lambda>c. if ct_ID c = [] then Some (External ''store request is not valid'') else None)\<rparr>"

definition exampleRand :: rand where
  "exampleRand =
     \<lparr>rnd_credentialID = ''C'',
      rnd_now = ''2023-06-01T00:00:00Z'',
      rnd_statusListID = ''33333333-3333-3333-3333-333333333333'',
      rnd_draws = [7, 9]\<rparr>"

definition suspensionListURI :: string where
  "suspensionListURI = ''svc/status/11111111-1111-1111-1111-111111111111''"

definition revocationListURI :: string where
  "revocationListURI = ''svc/status/22222222-2222-2222-2222-222222222222''"

definition exampleCredential ::
  "string \<Rightarrow> StatusList2021Entry option \<Rightarrow> bool \<Rightarrow> bool \<Rightarrow> StoredCredential" where
  "exampleCredential i status revoked suspended =
     \<lparr>sc_LocalCredentialID = i,
      sc_FullyQualifiedVerificationMethodID = ''#k1'',
      sc_Credential =
        \<lparr>vc_Context = [''https://www.w3.org/2018/credentials/v1''],
         vc_ID = ''svc/'' @ i,
         vc_Issuer = ''did:key:A'',
         vc_IssuanceDate = ''2023-01-01T00:00:00Z'',
         vc_ExpirationDate = [],
         vc_CredentialStatus = status,
         vc_CredentialSubject = SubjectData [(''id'', JString ''did:test:345'')],
         vc_CredentialSchema = None,
         vc_Evidence = []\<rparr>,
      sc_CredentialJWT = Some (''jwt/sk1/svc/'' @ i),
      sc_Issuer = ''did:key:A'',
      sc_Subject = ''did:test:345'',
      sc_Schema = [],
      sc_Revoked = revoked,
      sc_Suspended = suspended\<rparr>"

definition exampleEntry :: "string \<Rightarrow> string \<Rightarrow> nat \<Rightarrow> string \<Rightarrow> StatusList2021Entry" where
  "exampleEntry i purpose index uri =
     \<lparr>se_ID = ''svc/'' @ i @ ''/status'',
      se_StatusPurpose = purpose,
      se_StatusListIndex = index,
      se_StatusListCredential = uri\<rparr>"

definition exampleStatusList :: "string \<Rightarrow> string \<Rightarrow> string \<Rightarrow> nat set \<Rightarrow> bool \<Rightarrow> StoredCredential" where
  "exampleStatusList i uri purpose bits flag =
     \<lparr>sc_LocalCredentialID = i,
      sc_FullyQualifiedVerificationMethodID = ''#k1'',
      sc_Credential =
        \<lparr>vc_Context = [''https://www.w3.org/2018/credentials/v1''],
         vc_ID = uri,
         vc_Issuer = ''did:key:A'',
         vc_IssuanceDate = ''2023-01-01T00:00:00Z'',
         vc_ExpirationDate = [],
         vc_CredentialStatus = None,
         vc_CredentialSubject =
           SubjectStatusList \<lparr>sl_ID = uri, sl_StatusPurpose = purpose, sl_EncodedList = bits\<rparr>,
         vc_CredentialSchema = None,
         vc_Evidence = []\<rparr>,
      sc_CredentialJWT = Some (''jwt/sk1/'' @ uri),
      sc_Issuer = ''did:key:A'',
      sc_Subject = uri,
      sc_Schema = [],
      sc_Revoked = flag,
      sc_Suspended = flag\<rparr>"

definition credA :: StoredCredential where
  "credA = exampleCredential ''A'' (Some (exampleEntry ''A'' ''suspension'' 3 suspensionListURI)) False True"

definition credB :: StoredCredential where
  "credB = exampleCredential ''B'' (Some (exampleEntry ''B'' ''suspension'' 5 suspensionListURI)) False True"

definition credN :: StoredCredential where
  "credN = exampleCredential ''N'' None False False"

definition credR :: StoredCredential where
  "credR = exampleCredential ''R'' (Some (exampleEntry ''R'' ''revocation'' 3 revocationListURI)) False False"

definition exampleStore :: store where
  "exampleStore =
     \<lparr>credentialNS = [(''A'', credA), (''B'', credB), (''N'', credN), (''R'', credR)],
      statusListCredentialNS =
        [(''is/did:key:A/sc//sp/suspension'',
          exampleStatusList ''11111111-1111-1111-1111-111111111111'' suspensionListURI ''suspension'' {3, 5} False),
         (''is/did:key:A/sc//sp/revocation'',
          exampleStatusList ''22222222-2222-2222-2222-222222222222'' revocationListURI ''revocation'' {} False)],
      statusListIndexPoolNS =
        [(''is/did:key:A/sc//sp/suspension'', [5, 3]), (''is/did:key:A/sc//sp/revocation'', [3])],
      statusListCurrentIndexNS =
        [(''is/did:key:A/sc//sp/suspension'', 2), (''is/did:key:A/sc//sp/revocation'', 1)]\<rparr>"

text \<open>
  Requests of the issuer: a plain one, signed with the usable key \<^verbatim>\<open>#k1\<close>, from which
  the others are derived, and the choices of the requests of a batch in each attempt.
\<close>

definition exampleRequest :: CreateCredentialRequest where
  "exampleRequest =
     \<lparr>rq_Issuer = ''did:key:A'',
      rq_FullyQualifiedVerificationMethodID = ''#k1'',
      rq_Subject = ''did:test:345'',
      rq_Context = [],
      rq_SchemaID = [],
      rq_Data = Some [(''firstName'', JString ''Satoshi''), (''lastName'', JString ''Nakamoto'')],
      rq_Expiry = ''2024-06-01T00:00:00Z'',
      rq_Revocable = False,
      rq_Suspendable = False,
      rq_Evidence = []\<rparr>"

definition exampleRands :: "nat \<Rightarrow> nat \<Rightarrow> rand" where
  "exampleRands n i =
     (if i = 0 then exampleRand\<lparr>rnd_draws := [7 + n, 9]\<rparr>
      else exampleRand\<lparr>rnd_credentialID := ''D'', rnd_draws := [3, 8 + n]\<rparr>)"

text \<open>The same store with a status list record whose two flags are set.\<close>

definition flaggedStore :: store where
  "flaggedStore =
     exampleStore\<lparr>statusListCredentialNS :=
       [(''is/did:key:A/sc//sp/suspension'',
         exampleStatusList ''11111111-1111-1111-1111-111111111111'' suspensionListURI ''suspension'' {3, 5} True)]\<rparr>"

section \<open>Well-formed stores\<close>

text \<open>
  In a store the service has built, a credential whose \<open>revoked\<close> flag is set has the
  revocation purpose and one whose \<open>suspended\<close> flag is set has the suspension purpose.
\<close>

definition flagsAgreeWithPurpose :: "store \<Rightarrow> bool" where
  "flagsAgreeWithPurpose db =
     (\<forall>c\<in>set (map snd (credentialNS db)). \<forall>e. vc_CredentialStatus (sc_Credential c) = Some e \<longrightarrow>
        (sc_Revoked c \<longrightarrow> se_StatusPurpose e = StatusRevocation) \<and>
        (sc_Suspended c \<longrightarrow> se_StatusPurpose e = StatusSuspension))"

section \<open>Fields fixed by the first block of the assembly\<close>

definition core :: "VerifiableCredential \<Rightarrow> string \<times> string \<times> CredentialSubject" where
  "core b = (vc_ID b, vc_Issuer b, vc_CredentialSubject b)"

section \<open>Facts about the transaction primitive\<close>

lemmas example_defs = exampleEnv_def exampleRand_def suspensionListURI_def revocationListURI_def
  exampleCredential_def exampleEntry_def exampleStatusList_def credA_def credB_def credN_def credR_def
  exampleStore_def flaggedStore_def exampleRequest_def exampleRands_def

lemma Execute_Inl: "fn db [] = Inl e \<Longrightarrow> Execute fn wks db = (Inl e, db)"
  by (simp add: Execute_def)

lemma Execute_Inr: "fn db [] = Inr (v, tx) \<Longrightarrow> Execute fn wks db = (Inr v, commit tx db)"
  by (simp add: Execute_def)

lemma Execute_error_keeps_store: "Execute fn wks db = (Inl e, db') \<Longrightarrow> db' = db"
  by (auto simp: Execute_def split: sum.splits)

lemma commit_Nil: "commit [] db = db"
  by (simp add: commit_def)

lemma commit_snoc: "commit (tx @ [w]) db = applyWrite (commit tx db) w"
  by (simp add: commit_def)

section \<open>Reading a status list credential\<close>

text \<open>
  C10. A status list credential that is stored and valid is returned by
  \<open>GetCredentialStatusList\<close> with \<open>Revoked\<close> and \<open>Suspended\<close> both false, whatever the
  flags of the stored record are; the credential and the JWT are those of the record.
\<close>

theorem GetCredentialStatusList_flags_false:
  assumes "GetStatusListCredential db i = Inr gotCred"
      and "storedIsValid s gotCred"
  shows "\<exists>r. GetCredentialStatusList s db i = Inr r \<and> ct_Revoked r = False \<and> ct_Suspended r = False
             \<and> ct_Credential r = sc_Credential gotCred \<and> ct_CredentialJWT r = sc_CredentialJWT gotCred"
  using assms by (simp add: GetCredentialStatusList_def)

theorem GetCredentialStatusList_flags_false_witness:
  "sc_Revoked (exampleStatusList ''11111111-1111-1111-1111-111111111111'' suspensionListURI ''suspension'' {3, 5} True)
   \<and> sc_Suspended (exampleStatusList ''11111111-1111-1111-1111-111111111111'' suspensionListURI ''suspension'' {3, 5} True)
   \<and> (\<exists>r. GetCredentialStatusList exampleEnv flaggedStore ''11111111-1111-1111-1111-111111111111'' = Inr r
          \<and> ct_Revoked r = False \<and> ct_Suspended r = False)"
proof -
  let ?c = "exampleStatusList ''11111111-1111-1111-1111-111111111111'' suspensionListURI ''suspension'' {3, 5} True"
  have stored: "GetStatusListCredential flaggedStore ''11111111-1111-1111-1111-111111111111'' = Inr ?c"
    by (simp add: GetStatusListCredential_def example_defs)
  have valid: "storedIsValid exampleEnv ?c"
    by (simp add: example_defs)
  have flags: "sc_Revoked ?c \<and> sc_Suspended ?c"
    by (simp add: example_defs)
  from GetCredentialStatusList_flags_false [OF stored valid] flags show ?thesis
    by blast
qed

section \<open>Status update of a credential without status\<close>

text \<open>
  C6. When the target of \<open>UpdateCredentialStatus\<close> is a stored credential without a
  \<^verbatim>\<open>credentialStatus\<close> field, deriving the watch key fails with
  \<^verbatim>\<open>has no credentialStatus field\<close>, the operation returns that error, and the store is
  unchanged: the failure precedes the transaction.
\<close>

theorem UpdateCredentialStatus_no_status_field:
  assumes "map_of (credentialNS db) (us_ID request) = Some c"
      and "vc_CredentialStatus (sc_Credential c) = None"
  shows "statusListCredentialWatchKeyOf db (us_ID request) = Inl (NoCredentialStatusField (sc_LocalCredentialID c))
         \<and> UpdateCredentialStatus s rnd request db = (Inl (NoCredentialStatusField (sc_LocalCredentialID c)), db)"
  using assms
  by (simp add: UpdateCredentialStatus_def statusListCredentialWatchKeyOf_def Storage_GetCredential_def
      HasCredentialStatus_def)

theorem UpdateCredentialStatus_no_status_field_witness:
  "map_of (credentialNS exampleStore) ''N'' = Some credN
   \<and> vc_CredentialStatus (sc_Credential credN) = None
   \<and> UpdateCredentialStatus exampleEnv exampleRand \<lparr>us_ID = ''N'', us_Revoked = True, us_Suspended = False\<rparr> exampleStore
       = (Inl (NoCredentialStatusField ''N''), exampleStore)"
proof -
  have stored: "map_of (credentialNS exampleStore) (us_ID \<lparr>us_ID = ''N'', us_Revoked = True, us_Suspended = False\<rparr>) = Some credN"
    by (simp add: exampleStore_def)
  have none: "vc_CredentialStatus (sc_Credential credN) = None"
    by (simp add: credN_def exampleCredential_def)
  have i: "sc_LocalCredentialID credN = ''N''"
    by (simp add: credN_def exampleCredential_def)
  from UpdateCredentialStatus_no_status_field [OF stored none, of exampleEnv exampleRand] stored none i
  show ?thesis by simp
qed

section \<open>Status update: the generator and the transaction body\<close>

lemmas update_defs = UpdateCredentialStatus_def statusListCredentialWatchKeyOf_def Storage_GetCredential_def
  Execute_def updateCredentialStatusFunc_def updateCredentialStatusBusinessLogic_def Let_def commit_def
  HasCredentialStatus_def GetStatusPurpose_def GetStatusListCredentialKeyData_def tripleKey_def
  GetStatusListCredentialWatchKey_def updateCredentialStatus_def bindE_def wrapE_def
  StoreCredentialTx_def StoreStatusListCredentialTx_def parseIDFromURI_def
  GetCredentialsByIssuerAndSchema_def statusListInput_def GenerateStatusList2021Credential_def
  signCredentialJWT_def buildStoredCredential_def subjectID_def StatusRevocation_def StatusSuspension_def
  emptyWatchKey_def AList.update_def

lemma prepare_last_mismatch:
  assumes "vc_CredentialStatus t = Some e" and "se_StatusPurpose e \<noteq> p"
  shows "\<exists>err. prepareCredentialsForStatusList p (xs @ [t]) = Inl err"
  using assms by (induction xs) (auto simp: bindE_def split: option.splits)

lemma prepare_last_mismatch_exact:
  assumes "\<forall>x\<in>set xs. \<exists>e'. vc_CredentialStatus x = Some e' \<and> se_StatusPurpose e' = p"
      and "vc_CredentialStatus t = Some e" and "se_StatusPurpose e \<noteq> p"
  shows "prepareCredentialsForStatusList p (xs @ [t]) = Inl (DifferentStatusPurpose (vc_ID t) (se_StatusPurpose e) p)"
  using assms by (induction xs) (auto simp: bindE_def split: option.splits)

lemma collected_from_store:
  "x \<in> set (revokedOrSuspendedStatusCreds request gotCred creds) \<Longrightarrow>
   \<exists>c'\<in>set creds. x = sc_Credential c' \<and> vc_CredentialStatus x \<noteq> None \<and>
      ((us_Revoked request \<and> sc_Revoked c') \<or> (us_Suspended request \<and> sc_Suspended c'))"
  by (induction creds) (auto split: if_splits)

lemma Generate_last_mismatch:
  assumes "vc_CredentialStatus t = Some e" and "se_StatusPurpose e \<noteq> p"
  shows "\<exists>err. GenerateStatusList2021Credential rnd uri issuer p (xs @ [t]) = Inl err"
  using prepare_last_mismatch [OF assms, of xs]
  by (auto simp: GenerateStatusList2021Credential_def bindE_def)

lemma updateCredentialStatus_generate_fails:
  assumes "vc_CredentialStatus (sc_Credential gotCred) = Some entry"
      and "GetCredentialsByIssuerAndSchema db (sc_Issuer gotCred) (sc_Schema gotCred) = Inr creds"
      and "GenerateStatusList2021Credential rnd (se_StatusListCredential entry) (sc_Issuer gotCred)
             (if us_Suspended request then StatusSuspension else StatusRevocation)
             (statusListInput request gotCred creds) = Inl err"
  shows "\<exists>err'. updateCredentialStatus s rnd db tx gotCred request md = Inl err'"
proof (cases "us_Suspended request")
  case True
  with assms show ?thesis
    unfolding updateCredentialStatus_def Let_def
    by (simp add: bindE_def wrapE_def split: sum.splits)
next
  case False
  with assms show ?thesis
    unfolding updateCredentialStatus_def Let_def
    by (simp add: bindE_def wrapE_def split: sum.splits)
qed

lemma updateCredentialStatus_purpose_mismatch:
  assumes "vc_CredentialStatus (sc_Credential gotCred) = Some entry"
      and "us_Revoked request \<or> us_Suspended request"
      and "se_StatusPurpose entry \<noteq> (if us_Suspended request then StatusSuspension else StatusRevocation)"
  shows "\<exists>err. updateCredentialStatus s rnd db tx gotCred request md = Inl err"
proof -
  obtain creds where creds: "GetCredentialsByIssuerAndSchema db (sc_Issuer gotCred) (sc_Schema gotCred) = Inr creds"
    by (simp add: GetCredentialsByIssuerAndSchema_def)
  have input: "statusListInput request gotCred creds =
      revokedOrSuspendedStatusCreds request gotCred creds @ [sc_Credential gotCred]"
    using assms(2) by (auto simp: statusListInput_def)
  obtain err where gen: "GenerateStatusList2021Credential rnd (se_StatusListCredential entry) (sc_Issuer gotCred)
      (if us_Suspended request then StatusSuspension else StatusRevocation) (statusListInput request gotCred creds) = Inl err"
    using Generate_last_mismatch [OF assms(1) assms(3)] input by metis
  from updateCredentialStatus_generate_fails [OF assms(1) creds gen] show ?thesis .
qed

lemma businessLogic_purpose_mismatch:
  assumes stored: "map_of (credentialNS db) (us_ID request) = Some c"
      and status: "vc_CredentialStatus (sc_Credential c) = Some entry"
      and asserted: "us_Revoked request \<or> us_Suspended request"
      and differs: "se_StatusPurpose entry \<noteq> (if us_Suspended request then StatusSuspension else StatusRevocation)"
      and changed: "\<not> (sc_Revoked c = us_Revoked request \<and> sc_Suspended c = us_Suspended request)"
  shows "\<exists>err. updateCredentialStatusBusinessLogic s rnd db tx request md = Inl err"
proof -
  have get: "Storage_GetCredential db (us_ID request) = Inr c"
    using stored by (simp add: Storage_GetCredential_def)
  obtain err where upd: "updateCredentialStatus s rnd db tx c request md = Inl err"
    using updateCredentialStatus_purpose_mismatch [OF status asserted differs] by blast
  show ?thesis
    using changed by (auto simp: updateCredentialStatusBusinessLogic_def get upd)
qed

lemma collected_purpose:
  assumes inv: "flagsAgreeWithPurpose db"
      and one: "\<not> (us_Suspended request \<and> us_Revoked request)"
      and x: "x \<in> set (revokedOrSuspendedStatusCreds request gotCred
                 (filter P (map snd (credentialNS db))))"
  shows "\<exists>e. vc_CredentialStatus x = Some e \<and>
             se_StatusPurpose e = (if us_Suspended request then StatusSuspension else StatusRevocation)"
proof -
  from collected_from_store [OF x] obtain c' where
    c': "c' \<in> set (map snd (credentialNS db))" "x = sc_Credential c'" "vc_CredentialStatus x \<noteq> None"
        "(us_Revoked request \<and> sc_Revoked c') \<or> (us_Suspended request \<and> sc_Suspended c')"
    by auto
  then obtain e where e: "vc_CredentialStatus (sc_Credential c') = Some e" by auto
  with inv c'(1) have "(sc_Revoked c' \<longrightarrow> se_StatusPurpose e = StatusRevocation) \<and>
        (sc_Suspended c' \<longrightarrow> se_StatusPurpose e = StatusSuspension)"
    unfolding flagsAgreeWithPurpose_def by blast
  with c'(2,4) e one show ?thesis by auto
qed

lemma updateCredentialStatus_purpose_mismatch_exact:
  assumes status: "vc_CredentialStatus (sc_Credential gotCred) = Some entry"
      and asserted: "us_Revoked request \<or> us_Suspended request"
      and one: "\<not> (us_Suspended request \<and> us_Revoked request)"
      and differs: "se_StatusPurpose entry \<noteq> (if us_Suspended request then StatusSuspension else StatusRevocation)"
      and storable: "storeRequestIsValid s
             \<lparr>ct_ID = sc_LocalCredentialID gotCred,
              ct_FullyQualifiedVerificationMethodID = sc_FullyQualifiedVerificationMethodID gotCred,
              ct_Credential = sc_Credential gotCred,
              ct_CredentialJWT = sc_CredentialJWT gotCred,
              ct_Revoked = us_Revoked request,
              ct_Suspended = us_Suspended request\<rparr> = None"
      and uri: "36 \<le> length (se_StatusListCredential entry)"
      and inv: "flagsAgreeWithPurpose db"
  shows "updateCredentialStatus s rnd db tx gotCred request md =
           Inl (Wrap ''could not generate status list''
                  (DifferentStatusPurpose (vc_ID (sc_Credential gotCred)) (se_StatusPurpose entry)
                     (if us_Suspended request then StatusSuspension else StatusRevocation)))"
proof -
  let ?p = "if us_Suspended request then StatusSuspension else StatusRevocation"
  let ?creds = "filter (\<lambda>c. sc_Issuer c = sc_Issuer gotCred \<and> sc_Schema c = sc_Schema gotCred) (map snd (credentialNS db))"
  have creds: "GetCredentialsByIssuerAndSchema db (sc_Issuer gotCred) (sc_Schema gotCred) = Inr ?creds"
    by (simp add: GetCredentialsByIssuerAndSchema_def)
  have input: "statusListInput request gotCred ?creds =
      revokedOrSuspendedStatusCreds request gotCred ?creds @ [sc_Credential gotCred]"
    using asserted by (auto simp: statusListInput_def)
  have others: "\<forall>x\<in>set (revokedOrSuspendedStatusCreds request gotCred ?creds).
      \<exists>e'. vc_CredentialStatus x = Some e' \<and> se_StatusPurpose e' = ?p"
    using collected_purpose [OF inv one] by blast
  have prep: "prepareCredentialsForStatusList ?p (statusListInput request gotCred ?creds) =
      Inl (DifferentStatusPurpose (vc_ID (sc_Credential gotCred)) (se_StatusPurpose entry) ?p)"
    unfolding input by (rule prepare_last_mismatch_exact [OF others status differs])
  have gen: "GenerateStatusList2021Credential rnd (se_StatusListCredential entry) (sc_Issuer gotCred) ?p
      (statusListInput request gotCred ?creds) =
      Inl (DifferentStatusPurpose (vc_ID (sc_Credential gotCred)) (se_StatusPurpose entry) ?p)"
    by (simp add: GenerateStatusList2021Credential_def prep bindE_def)
  have nonempty: "se_StatusListCredential entry \<noteq> []" using uri by auto
  have parse: "parseIDFromURI (se_StatusListCredential entry) =
      Inr (drop (length (se_StatusListCredential entry) - 36) (se_StatusListCredential entry))"
    using uri by (simp add: parseIDFromURI_def)
  show ?thesis
  proof (cases "us_Suspended request")
    case True
    with status creds gen storable nonempty parse show ?thesis
      unfolding updateCredentialStatus_def Let_def
      by (simp add: bindE_def wrapE_def StoreCredentialTx_def)
  next
    case False
    with status creds gen storable nonempty parse show ?thesis
      unfolding updateCredentialStatus_def Let_def
      by (simp add: bindE_def wrapE_def StoreCredentialTx_def)
  qed
qed

lemma preamble_ok:
  assumes stored: "map_of (credentialNS db) i = Some c"
      and status: "vc_CredentialStatus (sc_Credential c) = Some entry"
      and purpose: "se_StatusPurpose entry \<noteq> []"
      and list: "map_of (statusListCredentialNS db)
                   (tripleKey (sc_Issuer c) (sc_Schema c) (se_StatusPurpose entry)) = Some slc"
  shows "statusListCredentialWatchKeyOf db i =
           Inr (Some (GetStatusListCredentialWatchKey (sc_Issuer c) (sc_Schema c) (se_StatusPurpose entry)))"
  using assms
  by (simp add: statusListCredentialWatchKeyOf_def Storage_GetCredential_def HasCredentialStatus_def
      GetStatusPurpose_def GetStatusListCredentialKeyData_def)

text \<open>
  What the generator receives. When the request asserts a flag, it is the credentials of
  the issuer and schema, other than the target, that have a status and the asserted flag,
  together with the target. When the request asserts no flag, it is nothing.
\<close>

lemma revokedOrSuspendedStatusCreds_set:
  "set (revokedOrSuspendedStatusCreds request gotCred creds) =
     {sc_Credential c | c. c \<in> set creds
        \<and> vc_ID (sc_Credential c) \<noteq> vc_ID (sc_Credential gotCred)
        \<and> vc_CredentialStatus (sc_Credential c) \<noteq> None
        \<and> ((us_Revoked request \<and> sc_Revoked c) \<or> (us_Suspended request \<and> sc_Suspended c))}"
  by (induction creds) auto

lemma statusListInput_asserted:
  assumes "us_Revoked request \<or> us_Suspended request"
  shows "set (statusListInput request gotCred creds) =
     {sc_Credential c | c. c \<in> set creds
        \<and> vc_ID (sc_Credential c) \<noteq> vc_ID (sc_Credential gotCred)
        \<and> vc_CredentialStatus (sc_Credential c) \<noteq> None
        \<and> ((us_Revoked request \<and> sc_Revoked c) \<or> (us_Suspended request \<and> sc_Suspended c))}
     \<union> {sc_Credential gotCred}"
  using assms by (auto simp: statusListInput_def revokedOrSuspendedStatusCreds_set)

lemma statusListInput_no_flag:
  "\<not> us_Revoked request \<Longrightarrow> \<not> us_Suspended request \<Longrightarrow> statusListInput request gotCred creds = []"
  by (induction creds) (auto simp: statusListInput_def)

lemma purpose_mismatch_always_fails:
  assumes stored: "map_of (credentialNS db) (us_ID request) = Some c"
      and status: "vc_CredentialStatus (sc_Credential c) = Some entry"
      and asserted: "us_Revoked request \<or> us_Suspended request"
      and differs: "se_StatusPurpose entry \<noteq> (if us_Suspended request then StatusSuspension else StatusRevocation)"
      and changed: "\<not> (sc_Revoked c = us_Revoked request \<and> sc_Suspended c = us_Suspended request)"
  shows "\<exists>e. UpdateCredentialStatus s rnd request db = (Inl e, db)"
proof (cases "statusListCredentialWatchKeyOf db (us_ID request)")
  case (Inl e)
  then show ?thesis by (simp add: UpdateCredentialStatus_def)
next
  case (Inr k)
  show ?thesis
  proof (cases k)
    case None
    with Inr show ?thesis by (simp add: UpdateCredentialStatus_def)
  next
    case (Some wk)
    let ?md = "\<lparr>statusListCredentialWatchKey = wk, statusListIndexPoolWatchKey = emptyWatchKey,
         statusListCurrentIndexWatchKey = emptyWatchKey\<rparr>"
    obtain err where "updateCredentialStatusFunc s rnd request ?md db [] = Inl err"
      using businessLogic_purpose_mismatch [OF stored status asserted differs changed, of s rnd "[]" ?md]
      by (auto simp: updateCredentialStatusFunc_def)
    then show ?thesis
      using Inr Some by (simp add: UpdateCredentialStatus_def Execute_Inl)
  qed
qed

lemma purpose_mismatch_error:
  assumes stored: "map_of (credentialNS db) (us_ID request) = Some c"
      and status: "vc_CredentialStatus (sc_Credential c) = Some entry"
      and asserted: "us_Revoked request \<or> us_Suspended request"
      and differs: "se_StatusPurpose entry \<noteq> (if us_Suspended request then StatusSuspension else StatusRevocation)"
      and changed: "\<not> (sc_Revoked c = us_Revoked request \<and> sc_Suspended c = us_Suspended request)"
      and one: "\<not> (us_Suspended request \<and> us_Revoked request)"
      and valid: "storedIsValid s c"
      and purpose: "se_StatusPurpose entry \<noteq> []"
      and list: "map_of (statusListCredentialNS db)
                   (tripleKey (sc_Issuer c) (sc_Schema c) (se_StatusPurpose entry)) = Some slc"
      and storable: "storeRequestIsValid s
             \<lparr>ct_ID = sc_LocalCredentialID c,
              ct_FullyQualifiedVerificationMethodID = sc_FullyQualifiedVerificationMethodID c,
              ct_Credential = sc_Credential c,
              ct_CredentialJWT = sc_CredentialJWT c,
              ct_Revoked = us_Revoked request,
              ct_Suspended = us_Suspended request\<rparr> = None"
      and uri: "36 \<le> length (se_StatusListCredential entry)"
      and inv: "flagsAgreeWithPurpose db"
  shows "UpdateCredentialStatus s rnd request db =
           (Inl (Wrap ''execute'' (Wrap ''updating credential'' (Wrap ''could not generate status list''
                  (DifferentStatusPurpose (vc_ID (sc_Credential c)) (se_StatusPurpose entry)
                     (if us_Suspended request then StatusSuspension else StatusRevocation))))), db)"
proof -
  have get: "Storage_GetCredential db (us_ID request) = Inr c"
    using stored by (simp add: Storage_GetCredential_def)
  note upd = updateCredentialStatus_purpose_mismatch_exact [OF status asserted one differs storable uri inv]
  have body: "updateCredentialStatusBusinessLogic s rnd db [] request md =
      Inl (Wrap ''updating credential'' (Wrap ''could not generate status list''
                  (DifferentStatusPurpose (vc_ID (sc_Credential c)) (se_StatusPurpose entry)
                     (if us_Suspended request then StatusSuspension else StatusRevocation))))" for md
    using changed one valid by (auto simp: updateCredentialStatusBusinessLogic_def get upd)
  show ?thesis
    by (simp add: UpdateCredentialStatus_def preamble_ok [OF stored status purpose list] Let_def
        Execute_def updateCredentialStatusFunc_def body)
qed

section \<open>Status update with the wrong purpose\<close>

text \<open>
  C5. Let the target be a stored credential with a status entry, and let the request
  assert a flag whose purpose is not the purpose of that entry, the stored flags being
  different from the requested ones. Then \<open>UpdateCredentialStatus\<close> fails and the store,
  hence the stored flags of the credential, is unchanged. When moreover the request
  asserts one flag only, the preamble succeeds, the record is valid and storable, the
  status list URI has at least 36 characters and the flags of the stored credentials
  agree with their purposes, the error is \<^verbatim>\<open>different status purpose\<close>, raised by the
  generator for the target, naming the purpose of the entry and the requested purpose.
\<close>

theorem UpdateCredentialStatus_wrong_purpose:
  assumes stored: "map_of (credentialNS db) (us_ID request) = Some c"
      and status: "vc_CredentialStatus (sc_Credential c) = Some entry"
      and asserted: "us_Revoked request \<or> us_Suspended request"
      and differs: "se_StatusPurpose entry \<noteq> (if us_Suspended request then StatusSuspension else StatusRevocation)"
      and changed: "\<not> (sc_Revoked c = us_Revoked request \<and> sc_Suspended c = us_Suspended request)"
  shows "(\<exists>e. UpdateCredentialStatus s rnd request db = (Inl e, db))
       \<and> (\<not> (us_Suspended request \<and> us_Revoked request) \<and> storedIsValid s c
            \<and> se_StatusPurpose entry \<noteq> []
            \<and> map_of (statusListCredentialNS db)
                 (tripleKey (sc_Issuer c) (sc_Schema c) (se_StatusPurpose entry)) \<noteq> None
            \<and> storeRequestIsValid s
                 \<lparr>ct_ID = sc_LocalCredentialID c,
                  ct_FullyQualifiedVerificationMethodID = sc_FullyQualifiedVerificationMethodID c,
                  ct_Credential = sc_Credential c,
                  ct_CredentialJWT = sc_CredentialJWT c,
                  ct_Revoked = us_Revoked request,
                  ct_Suspended = us_Suspended request\<rparr> = None
            \<and> 36 \<le> length (se_StatusListCredential entry)
            \<and> flagsAgreeWithPurpose db \<longrightarrow>
          UpdateCredentialStatus s rnd request db =
            (Inl (Wrap ''execute'' (Wrap ''updating credential'' (Wrap ''could not generate status list''
                   (DifferentStatusPurpose (vc_ID (sc_Credential c)) (se_StatusPurpose entry)
                      (if us_Suspended request then StatusSuspension else StatusRevocation))))), db))"
  using purpose_mismatch_always_fails [OF assms] purpose_mismatch_error [OF assms]
  by blast

theorem UpdateCredentialStatus_wrong_purpose_witness:
  "map_of (credentialNS exampleStore) ''R'' = Some credR
   \<and> map_option se_StatusPurpose (vc_CredentialStatus (sc_Credential credR)) = Some ''revocation''
   \<and> \<not> sc_Suspended credR
   \<and> UpdateCredentialStatus exampleEnv exampleRand \<lparr>us_ID = ''R'', us_Revoked = False, us_Suspended = True\<rparr> exampleStore
       = (Inl (Wrap ''execute'' (Wrap ''updating credential'' (Wrap ''could not generate status list''
                (DifferentStatusPurpose ''svc/R'' ''revocation'' ''suspension'')))), exampleStore)"
proof -
  let ?rq = "\<lparr>us_ID = ''R'', us_Revoked = False, us_Suspended = True\<rparr>"
  let ?e = "exampleEntry ''R'' ''revocation'' 3 revocationListURI"
  have stored: "map_of (credentialNS exampleStore) (us_ID ?rq) = Some credR"
    by (simp add: exampleStore_def)
  have status: "vc_CredentialStatus (sc_Credential credR) = Some ?e"
    by (simp add: credR_def exampleCredential_def)
  have asserted: "us_Revoked ?rq \<or> us_Suspended ?rq"
    by simp
  have differs: "se_StatusPurpose ?e \<noteq> (if us_Suspended ?rq then StatusSuspension else StatusRevocation)"
    by (simp add: exampleEntry_def StatusSuspension_def)
  have changed: "\<not> (sc_Revoked credR = us_Revoked ?rq \<and> sc_Suspended credR = us_Suspended ?rq)"
    by (simp add: credR_def exampleCredential_def)
  have wf: "\<not> (us_Suspended ?rq \<and> us_Revoked ?rq) \<and> storedIsValid exampleEnv credR
            \<and> se_StatusPurpose ?e \<noteq> []
            \<and> map_of (statusListCredentialNS exampleStore)
                 (tripleKey (sc_Issuer credR) (sc_Schema credR) (se_StatusPurpose ?e)) \<noteq> None
            \<and> storeRequestIsValid exampleEnv
                 \<lparr>ct_ID = sc_LocalCredentialID credR,
                  ct_FullyQualifiedVerificationMethodID = sc_FullyQualifiedVerificationMethodID credR,
                  ct_Credential = sc_Credential credR,
                  ct_CredentialJWT = sc_CredentialJWT credR,
                  ct_Revoked = us_Revoked ?rq,
                  ct_Suspended = us_Suspended ?rq\<rparr> = None
            \<and> 36 \<le> length (se_StatusListCredential ?e)
            \<and> flagsAgreeWithPurpose exampleStore"
    by (simp add: flagsAgreeWithPurpose_def example_defs tripleKey_def StatusSuspension_def StatusRevocation_def)
  have vals: "vc_ID (sc_Credential credR) = ''svc/R''" "se_StatusPurpose ?e = ''revocation''"
    "\<not> sc_Suspended credR"
    by (simp_all add: credR_def exampleCredential_def exampleEntry_def)
  from UpdateCredentialStatus_wrong_purpose [OF stored status asserted differs changed, of exampleEnv exampleRand]
    wf stored status vals
  show ?thesis
    by (simp add: StatusSuspension_def)
qed

section \<open>Status update with the stored flags\<close>

text \<open>
  C2, as amended. When the requested flags are the flags stored on the credential, the
  store is unchanged. When moreover the stored record is valid and the request does not
  assert both flags, the transaction body returns the current status and leaves the
  pending write set as it was: no record is written and neither generation nor signing
  is reached; and when the preamble succeeds (the credential has a status entry with a
  purpose and its triple has a status list credential) the operation returns the current
  status.
\<close>

theorem UpdateCredentialStatus_same_flags_noop:
  assumes stored: "map_of (credentialNS db) (us_ID request) = Some c"
      and revoked: "sc_Revoked c = us_Revoked request"
      and suspended: "sc_Suspended c = us_Suspended request"
  shows "snd (UpdateCredentialStatus s rnd request db) = db
       \<and> (storedIsValid s c \<and> \<not> (us_Suspended request \<and> us_Revoked request) \<longrightarrow>
            updateCredentialStatusBusinessLogic s rnd db tx request md =
              Inr (\<lparr>st_ID = [], st_Revoked = sc_Revoked c, st_Suspended = sc_Suspended c\<rparr>, tx)
          \<and> (\<forall>entry slc. vc_CredentialStatus (sc_Credential c) = Some entry \<and> se_StatusPurpose entry \<noteq> []
                 \<and> map_of (statusListCredentialNS db)
                      (tripleKey (sc_Issuer c) (sc_Schema c) (se_StatusPurpose entry)) = Some slc \<longrightarrow>
               UpdateCredentialStatus s rnd request db =
                 (Inr \<lparr>st_ID = [], st_Revoked = sc_Revoked c, st_Suspended = sc_Suspended c\<rparr>, db)))"
proof -
  have get: "Storage_GetCredential db (us_ID request) = Inr c"
    using stored by (simp add: Storage_GetCredential_def)
  have body: "updateCredentialStatusBusinessLogic s rnd db tx' request md' = r \<Longrightarrow>
      (\<exists>e. r = Inl e) \<or> r = Inr (\<lparr>st_ID = [], st_Revoked = sc_Revoked c, st_Suspended = sc_Suspended c\<rparr>, tx')" for tx' md' r
    using revoked suspended by (auto simp: updateCredentialStatusBusinessLogic_def get)
  have unchanged: "snd (UpdateCredentialStatus s rnd request db) = db"
  proof (cases "statusListCredentialWatchKeyOf db (us_ID request)")
    case (Inl e)
    then show ?thesis by (simp add: UpdateCredentialStatus_def)
  next
    case (Inr k)
    show ?thesis
    proof (cases k)
      case None
      with Inr show ?thesis by (simp add: UpdateCredentialStatus_def)
    next
      case (Some wk)
      let ?md = "\<lparr>statusListCredentialWatchKey = wk, statusListIndexPoolWatchKey = emptyWatchKey,
         statusListCurrentIndexWatchKey = emptyWatchKey\<rparr>"
      from body [OF refl, of "[]" ?md] Inr Some show ?thesis
        by (auto simp: UpdateCredentialStatus_def Execute_def updateCredentialStatusFunc_def commit_Nil)
    qed
  qed
  have logic: "updateCredentialStatusBusinessLogic s rnd db tx' request md' =
              Inr (\<lparr>st_ID = [], st_Revoked = sc_Revoked c, st_Suspended = sc_Suspended c\<rparr>, tx')"
    if "storedIsValid s c" "\<not> (us_Suspended request \<and> us_Revoked request)" for tx' md'
    using that revoked suspended by (auto simp: updateCredentialStatusBusinessLogic_def get)
  have whole: "UpdateCredentialStatus s rnd request db =
                 (Inr \<lparr>st_ID = [], st_Revoked = sc_Revoked c, st_Suspended = sc_Suspended c\<rparr>, db)"
    if "storedIsValid s c" "\<not> (us_Suspended request \<and> us_Revoked request)"
       "vc_CredentialStatus (sc_Credential c) = Some entry" "se_StatusPurpose entry \<noteq> []"
       "map_of (statusListCredentialNS db)
                      (tripleKey (sc_Issuer c) (sc_Schema c) (se_StatusPurpose entry)) = Some slc" for entry slc
    by (simp add: UpdateCredentialStatus_def preamble_ok [OF stored that(3,4,5)] Let_def
        Execute_def updateCredentialStatusFunc_def logic [OF that(1,2)] commit_Nil)
  from unchanged logic whole show ?thesis by blast
qed

theorem UpdateCredentialStatus_same_flags_noop_witness:
  "map_of (credentialNS exampleStore) ''A'' = Some credA
   \<and> sc_Revoked credA = False \<and> sc_Suspended credA = True
   \<and> UpdateCredentialStatus exampleEnv exampleRand \<lparr>us_ID = ''A'', us_Revoked = False, us_Suspended = True\<rparr> exampleStore
       = (Inr \<lparr>st_ID = [], st_Revoked = False, st_Suspended = True\<rparr>, exampleStore)"
proof -
  let ?rq = "\<lparr>us_ID = ''A'', us_Revoked = False, us_Suspended = True\<rparr>"
  let ?e = "exampleEntry ''A'' ''suspension'' 3 suspensionListURI"
  let ?l = "exampleStatusList ''11111111-1111-1111-1111-111111111111'' suspensionListURI ''suspension'' {3, 5} False"
  have stored: "map_of (credentialNS exampleStore) (us_ID ?rq) = Some credA"
    by (simp add: exampleStore_def)
  have revoked: "sc_Revoked credA = us_Revoked ?rq"
    by (simp add: credA_def exampleCredential_def)
  have suspended: "sc_Suspended credA = us_Suspended ?rq"
    by (simp add: credA_def exampleCredential_def)
  have pre: "storedIsValid exampleEnv credA \<and> \<not> (us_Suspended ?rq \<and> us_Revoked ?rq)"
    by (simp add: example_defs)
  have entry: "vc_CredentialStatus (sc_Credential credA) = Some ?e \<and> se_StatusPurpose ?e \<noteq> []
     \<and> map_of (statusListCredentialNS exampleStore)
          (tripleKey (sc_Issuer credA) (sc_Schema credA) (se_StatusPurpose ?e)) = Some ?l"
    by (simp add: example_defs tripleKey_def)
  have vals: "sc_Revoked credA = False" "sc_Suspended credA = True"
    by (simp_all add: credA_def exampleCredential_def)
  from UpdateCredentialStatus_same_flags_noop [OF stored revoked suspended, of exampleEnv exampleRand]
    pre entry
  have "UpdateCredentialStatus exampleEnv exampleRand ?rq exampleStore =
      (Inr \<lparr>st_ID = [], st_Revoked = sc_Revoked credA, st_Suspended = sc_Suspended credA\<rparr>, exampleStore)"
    by blast
  with stored vals show ?thesis by simp
qed

text \<open>
  The claim as stated fails on a credential without status: the requested flags are the
  stored ones, and the operation returns the error of the preamble, not the status.
\<close>

theorem UpdateCredentialStatus_same_flags_counterexample:
  "map_of (credentialNS exampleStore) ''N'' = Some credN
   \<and> sc_Revoked credN = False \<and> sc_Suspended credN = False
   \<and> fst (UpdateCredentialStatus exampleEnv exampleRand \<lparr>us_ID = ''N'', us_Revoked = False, us_Suspended = False\<rparr> exampleStore)
       = Inl (NoCredentialStatusField ''N'')
   \<and> fst (UpdateCredentialStatus exampleEnv exampleRand \<lparr>us_ID = ''N'', us_Revoked = False, us_Suspended = False\<rparr> exampleStore)
       \<noteq> Inr \<lparr>st_ID = [], st_Revoked = False, st_Suspended = False\<rparr>"
  by (simp add: UpdateCredentialStatus_def statusListCredentialWatchKeyOf_def Storage_GetCredential_def
      HasCredentialStatus_def example_defs)

section \<open>The credentials given to the status list generator\<close>

text \<open>
  C1. The request that clears the flag of the suspended credential \<open>A\<close> succeeds. The
  credential \<open>B\<close> of the same suspension triple stays stored with \<open>suspended\<close> set and
  index 5, but the list handed to the generator is empty and the status list credential
  written for the triple has the revocation purpose and no bit set.
\<close>

theorem UpdateCredentialStatus_unsuspend_clears_list:
  "fst (UpdateCredentialStatus exampleEnv exampleRand \<lparr>us_ID = ''A'', us_Revoked = False, us_Suspended = False\<rparr> exampleStore)
     = Inr \<lparr>st_ID = [], st_Revoked = False, st_Suspended = False\<rparr>
   \<and> map_of (credentialNS (snd (UpdateCredentialStatus exampleEnv exampleRand
         \<lparr>us_ID = ''A'', us_Revoked = False, us_Suspended = False\<rparr> exampleStore))) ''B'' = Some credB
   \<and> sc_Suspended credB
   \<and> map_option se_StatusListIndex (vc_CredentialStatus (sc_Credential credB)) = Some 5
   \<and> map_option se_StatusPurpose (vc_CredentialStatus (sc_Credential credB)) = Some ''suspension''
   \<and> map_option (\<lambda>l. vc_CredentialSubject (sc_Credential l))
        (map_of (statusListCredentialNS (snd (UpdateCredentialStatus exampleEnv exampleRand
           \<lparr>us_ID = ''A'', us_Revoked = False, us_Suspended = False\<rparr> exampleStore)))
           (tripleKey ''did:key:A'' [] ''suspension''))
       = Some (SubjectStatusList \<lparr>sl_ID = suspensionListURI, sl_StatusPurpose = ''revocation'', sl_EncodedList = {}\<rparr>)
   \<and> statusListInput \<lparr>us_ID = ''A'', us_Revoked = False, us_Suspended = False\<rparr> credA [credA, credB, credN, credR] = []"
  by (simp add: update_defs example_defs)

section \<open>Creation: the assembly, the signature and the transaction\<close>

lemmas create_defs = CreateCredential_def createCredentialFunc_def createCredential_def buildCredential_def
  setIdentity_def setContext_def setSchema_def setDates_def setStatus_def setEvidence_def
  buildAndValidate_def builderCall_def CopyCredential_def statusWatchKeys_def hasStatus_def
  isStatusValid_def hasEvidence_def createStatusListEntryForCredential_def drawIndex_def
  NewVerifiableCredentialBuilder_def emptyMetadata_def GetStatusListIndexPoolWatchKey_def
  GetStatusListCurrentIndexWatchKey_def BatchCreateCredentials_def

lemma bindE_InrE:
  assumes "bindE r f = Inr v"
  obtains x where "r = Inr x" and "f x = Inr v"
  using assms by (cases r) (auto simp: bindE_def)

lemma setIdentity_success:
  assumes "setIdentity s rnd request = Inr b"
  shows "vc_Issuer b = rq_Issuer request
       \<and> vc_ID b = servicePath s @ ''/'' @ rnd_credentialID rnd
       \<and> (\<exists>d. rq_Data request = Some d
            \<and> vc_CredentialSubject b = SubjectData (AList.update ''id'' (JString (rq_Subject request)) d)
            \<and> (map_of d ''id'' = None \<or> map_of d ''id'' = Some (JString (rq_Subject request))))"
  using assms
  unfolding setIdentity_def Let_def bindE_def builderCall_def
  by (auto split: sum.splits option.splits if_splits)

lemma setContext_core: "setContext s request b = Inr b' \<Longrightarrow> core b' = core b"
  unfolding setContext_def bindE_def builderCall_def
  by (auto simp: core_def split: sum.splits option.splits if_splits)

lemma setSchema_core: "setSchema s request b = Inr (k, b') \<Longrightarrow> core b' = core b"
  unfolding setSchema_def bindE_def builderCall_def Let_def
  by (auto simp: core_def split: sum.splits option.splits if_splits prod.splits)

lemma setDates_core: "setDates s rnd request b = Inr b' \<Longrightarrow> core b' = core b"
  unfolding setDates_def bindE_def builderCall_def
  by (auto simp: core_def split: sum.splits option.splits if_splits)

lemma setStatus_core: "setStatus s rnd db request tx md b = Inr (b', tx') \<Longrightarrow> core b' = core b"
  unfolding setStatus_def bindE_def builderCall_def wrapE_def
  by (auto simp: core_def split: sum.splits option.splits if_splits prod.splits)

lemma setEvidence_core: "setEvidence s request b = Inr b' \<Longrightarrow> core b' = core b"
  unfolding setEvidence_def bindE_def builderCall_def
  by (auto simp: core_def split: sum.splits option.splits if_splits)

lemma buildAndValidate_core: "buildAndValidate s k b = Inr b' \<Longrightarrow> b' = b"
  unfolding buildAndValidate_def bindE_def builderCall_def
  by (auto split: sum.splits option.splits if_splits)

lemma buildCredential_core:
  assumes "buildCredential s rnd db request tx md = Inr (cred, tx1)"
  shows "\<exists>b. setIdentity s rnd request = Inr b \<and> core cred = core b"
proof -
  from assms obtain b3 b4 k b5 b7 b8 tx' b9 where
    steps: "setIdentity s rnd request = Inr b3" "setContext s request b3 = Inr b4"
      "setSchema s request b4 = Inr (k, b5)" "setDates s rnd request b5 = Inr b7"
      "setStatus s rnd db request tx md b7 = Inr (b8, tx')" "setEvidence s request b8 = Inr b9"
      "buildAndValidate s k b9 = Inr cred"
    unfolding buildCredential_def
    by (auto elim!: bindE_InrE split: prod.splits)
  from steps show ?thesis
    by (auto dest!: setContext_core setSchema_core setDates_core setStatus_core setEvidence_core
        buildAndValidate_core)
qed

lemma buildCredential_success:
  assumes "buildCredential s rnd db request tx md = Inr (cred, tx1)"
  shows "vc_Issuer cred = rq_Issuer request
       \<and> vc_ID cred = servicePath s @ ''/'' @ rnd_credentialID rnd
       \<and> (\<exists>d. rq_Data request = Some d
            \<and> vc_CredentialSubject cred = SubjectData (AList.update ''id'' (JString (rq_Subject request)) d)
            \<and> (map_of d ''id'' = None \<or> map_of d ''id'' = Some (JString (rq_Subject request))))"
proof -
  from buildCredential_core [OF assms] obtain b where
    b: "setIdentity s rnd request = Inr b" "core cred = core b" by blast
  from setIdentity_success [OF b(1)] b(2) show ?thesis
    by (simp add: core_def)
qed

lemma sign_bad_key:
  assumes "case GetKey s (FullyQualifiedVerificationMethodID s (vc_Issuer cred) vm) of
             Inl e \<Rightarrow> True
           | Inr k \<Rightarrow> key_Controller k \<noteq> vc_Issuer cred \<or> key_Revoked k"
  shows "\<exists>e. signCredentialJWT s vm cred = Inl e"
  using assms by (auto simp: signCredentialJWT_def Let_def split: sum.splits)

lemma sign_revoked_key:
  assumes "GetKey s (FullyQualifiedVerificationMethodID s (vc_Issuer cred) vm) = Inr k"
      and "key_Controller k = vc_Issuer cred" and "key_Revoked k"
  shows "signCredentialJWT s vm cred = Inl (CannotUseRevokedKey (key_ID k))"
  using assms by (simp add: signCredentialJWT_def Let_def)

lemma createCredential_bad_key:
  assumes "case GetKey s (FullyQualifiedVerificationMethodID s (rq_Issuer request)
                   (rq_FullyQualifiedVerificationMethodID request)) of
             Inl e \<Rightarrow> True
           | Inr k \<Rightarrow> key_Controller k \<noteq> rq_Issuer request \<or> key_Revoked k"
  shows "\<exists>e. createCredential s rnd db request tx md = Inl e"
proof (cases "buildCredential s rnd db request tx md")
  case (Inl e)
  then show ?thesis by (simp add: createCredential_def bindE_def)
next
  case (Inr r)
  obtain cred tx1 where r: "r = (cred, tx1)" by (cases r)
  from buildCredential_success Inr r have issuer: "vc_Issuer cred = rq_Issuer request" by blast
  have bad: "case GetKey s (FullyQualifiedVerificationMethodID s (vc_Issuer cred)
                   (rq_FullyQualifiedVerificationMethodID request)) of
             Inl e \<Rightarrow> True
           | Inr k \<Rightarrow> key_Controller k \<noteq> vc_Issuer cred \<or> key_Revoked k"
    using assms by (simp only: issuer)
  from sign_bad_key [OF bad]
  obtain e where "signCredentialJWT s (rq_FullyQualifiedVerificationMethodID request) cred = Inl e"
    by blast
  with Inr r show ?thesis
    by (simp add: createCredential_def bindE_def wrapE_def CopyCredential_def split: option.splits)
qed

lemma CreateCredential_body_fails:
  assumes "\<And>tx md. \<exists>e. createCredential s rnd db request tx md = Inl e"
  shows "\<exists>e. CreateCredential s rnd request db = (Inl e, db)"
proof (cases "requestIsValid s request")
  case (Some e)
  then show ?thesis by (simp add: CreateCredential_def)
next
  case None
  obtain wks md where w: "statusWatchKeys request = (wks, md)" by (cases "statusWatchKeys request")
  from assms [of "[]" md] obtain e where "createCredentialFunc s rnd request md db [] = Inl e"
    by (auto simp: createCredentialFunc_def)
  then have "Execute (createCredentialFunc s rnd request md) wks db = (Inl e, db)"
    by (rule Execute_Inl)
  with None w show ?thesis by (simp add: CreateCredential_def)
qed

lemma CreateCredential_body_error:
  assumes "requestIsValid s request = None"
      and "createCredential s rnd db request [] (snd (statusWatchKeys request)) = Inl e"
  shows "CreateCredential s rnd request db = (Inl (Wrap ''execute'' e), db)"
proof -
  obtain wks md where w: "statusWatchKeys request = (wks, md)" by (cases "statusWatchKeys request")
  with assms(2) have "createCredentialFunc s rnd request md db [] = Inl e"
    by (simp add: createCredentialFunc_def)
  then have "Execute (createCredentialFunc s rnd request md) wks db = (Inl e, db)"
    by (rule Execute_Inl)
  with assms(1) w show ?thesis by (simp add: CreateCredential_def)
qed

lemma createCredential_success:
  assumes "createCredential s rnd db request tx md = Inr (container, tx2)"
  shows "\<exists>cred tx1 jwt. buildCredential s rnd db request tx md = Inr (cred, tx1)
           \<and> signCredentialJWT s (rq_FullyQualifiedVerificationMethodID request) cred = Inr jwt
           \<and> container = \<lparr>ct_ID = rnd_credentialID rnd,
                 ct_FullyQualifiedVerificationMethodID = rq_FullyQualifiedVerificationMethodID request,
                 ct_Credential = cred, ct_CredentialJWT = Some jwt,
                 ct_Revoked = False, ct_Suspended = False\<rparr>
           \<and> tx2 = tx1 @ [WriteCredential (rnd_credentialID rnd) (buildStoredCredential container)]"
proof (cases "buildCredential s rnd db request tx md")
  case (Inl e)
  with assms show ?thesis by (simp add: createCredential_def bindE_def split: if_splits)
next
  case (Inr r)
  obtain cred tx1 where r: "r = (cred, tx1)" by (cases r)
  from assms Inr r show ?thesis
    by (auto simp: createCredential_def bindE_def wrapE_def CopyCredential_def StoreCredentialTx_def Let_def
        split: if_splits option.splits sum.splits)
qed

lemma CreateCredential_success:
  assumes "CreateCredential s rnd request db = (Inr container, db')"
  shows "\<exists>tx. createCredential s rnd db request [] (snd (statusWatchKeys request)) = Inr (container, tx)
            \<and> db' = commit tx db"
  using assms
  by (auto simp: CreateCredential_def Execute_def createCredentialFunc_def
      split: option.splits prod.splits sum.splits)
















lemma ExecuteUnder_sequential:
  assumes "\<forall>m. fn db [] \<noteq> Inl (Panic m)"
  shows "ExecuteUnder (\<lambda>n h db tx. case fn db tx of Inl e \<Rightarrow> Inl e | Inr r \<Rightarrow> Inr (r, h)) watchKeys [] n h db =
           (case Execute fn watchKeys db of (r, db') \<Rightarrow> Returns r db')"
  using assms by (auto simp: Execute_def split: sum.splits prod.splits error.splits)

section \<open>A request for both statuses\<close>

text \<open>
  C3. For a request with both \<open>revocable\<close> and \<open>suspendable\<close> set, the transaction body
  of \<open>CreateCredential\<close> fails with \<^verbatim>\<open>credential may have at most one status\<close>; the
  operation fails and the store is unchanged, so neither a credential nor a status list
  credential, pool entry or cursor is persisted; and when the request passes the
  validation of its fields the error returned is that error, wrapped by \<^verbatim>\<open>execute\<close>.
\<close>

theorem CreateCredential_both_statuses:
  assumes "rq_Revocable request" and "rq_Suspendable request"
  shows "createCredential s rnd db request tx md = Inl AtMostOneStatus
       \<and> (\<exists>e. CreateCredential s rnd request db = (Inl e, db))
       \<and> (requestIsValid s request = None \<longrightarrow>
            CreateCredential s rnd request db = (Inl (Wrap ''execute'' AtMostOneStatus), db))"
proof -
  have body: "createCredential s rnd db request tx' md' = Inl AtMostOneStatus" for tx' md'
    using assms by (simp add: createCredential_def isStatusValid_def)
  have "\<exists>e. CreateCredential s rnd request db = (Inl e, db)"
    by (rule CreateCredential_body_fails) (simp add: body)
  with body CreateCredential_body_error [OF _ body] show ?thesis by blast
qed

theorem CreateCredential_both_statuses_witness:
  "rq_Revocable (exampleRequest\<lparr>rq_Revocable := True, rq_Suspendable := True\<rparr>)
   \<and> rq_Suspendable (exampleRequest\<lparr>rq_Revocable := True, rq_Suspendable := True\<rparr>)
   \<and> CreateCredential exampleEnv exampleRand (exampleRequest\<lparr>rq_Revocable := True, rq_Suspendable := True\<rparr>)
        exampleStore = (Inl (Wrap ''execute'' AtMostOneStatus), exampleStore)"
proof -
  let ?rq = "exampleRequest\<lparr>rq_Revocable := True, rq_Suspendable := True\<rparr>"
  have r: "rq_Revocable ?rq" by simp
  have u: "rq_Suspendable ?rq" by simp
  have v: "requestIsValid exampleEnv ?rq = None" by (simp add: example_defs)
  from CreateCredential_both_statuses [OF r u, where s = exampleEnv and rnd = exampleRand
      and db = exampleStore and tx = "[]" and md = emptyMetadata] v r u
  show ?thesis by blast
qed

section \<open>A request whose signing key cannot be used\<close>

text \<open>
  C4. When the key of the request is not found, is controlled by another DID than the
  issuer, or is revoked, the transaction body of \<open>CreateCredential\<close> fails for every
  pending write set, and the operation fails with the store unchanged. When the key is
  found, controlled by the issuer and revoked, and the request is valid and its
  credential is assembled and copied, the error is \<^verbatim>\<open>cannot use revoked key\<close>, wrapped
  by \<^verbatim>\<open>signing credential\<close> and \<^verbatim>\<open>execute\<close>.
\<close>

theorem CreateCredential_unusable_key:
  assumes "case GetKey s (FullyQualifiedVerificationMethodID s (rq_Issuer request)
                   (rq_FullyQualifiedVerificationMethodID request)) of
             Inl e \<Rightarrow> True
           | Inr k \<Rightarrow> key_Controller k \<noteq> rq_Issuer request \<or> key_Revoked k"
  shows "(\<exists>e. createCredential s rnd db request tx md = Inl e)
       \<and> (\<exists>e. CreateCredential s rnd request db = (Inl e, db))
       \<and> (\<forall>k cred tx1. GetKey s (FullyQualifiedVerificationMethodID s (rq_Issuer request)
                   (rq_FullyQualifiedVerificationMethodID request)) = Inr k
             \<and> key_Controller k = rq_Issuer request \<and> key_Revoked k
             \<and> requestIsValid s request = None \<and> isStatusValid request
             \<and> buildCredential s rnd db request [] (snd (statusWatchKeys request)) = Inr (cred, tx1)
             \<and> CopyCredentialError s cred = None \<longrightarrow>
           CreateCredential s rnd request db =
             (Inl (Wrap ''execute'' (Wrap ''signing credential'' (CannotUseRevokedKey (key_ID k)))), db))"
proof -
  have body: "\<exists>e. createCredential s rnd db request tx' md' = Inl e" for tx' md'
    by (rule createCredential_bad_key [OF assms])
  have whole: "\<exists>e. CreateCredential s rnd request db = (Inl e, db)"
    by (rule CreateCredential_body_fails) (rule body)
  have exact: "CreateCredential s rnd request db =
             (Inl (Wrap ''execute'' (Wrap ''signing credential'' (CannotUseRevokedKey (key_ID k)))), db)"
    if k: "GetKey s (FullyQualifiedVerificationMethodID s (rq_Issuer request)
                   (rq_FullyQualifiedVerificationMethodID request)) = Inr k"
       "key_Controller k = rq_Issuer request" "key_Revoked k"
      and ok: "requestIsValid s request = None" "isStatusValid request"
       "buildCredential s rnd db request [] (snd (statusWatchKeys request)) = Inr (cred, tx1)"
       "CopyCredentialError s cred = None" for k cred tx1
  proof -
    from buildCredential_success [OF ok(3)] have issuer: "vc_Issuer cred = rq_Issuer request" by blast
    from sign_revoked_key [where s = s and cred = cred and vm = "rq_FullyQualifiedVerificationMethodID request" and k = k] k issuer
    have "signCredentialJWT s (rq_FullyQualifiedVerificationMethodID request) cred =
        Inl (CannotUseRevokedKey (key_ID k))" by simp
    with ok have "createCredential s rnd db request [] (snd (statusWatchKeys request)) =
        Inl (Wrap ''signing credential'' (CannotUseRevokedKey (key_ID k)))"
      by (simp add: createCredential_def bindE_def wrapE_def CopyCredential_def)
    from CreateCredential_body_error [OF ok(1) this] show ?thesis .
  qed
  from body whole exact show ?thesis by blast
qed

theorem CreateCredential_unusable_key_witness:
  "(\<exists>cred tx1. buildCredential exampleEnv exampleRand exampleStore
        (exampleRequest\<lparr>rq_Revocable := True, rq_FullyQualifiedVerificationMethodID := ''#k2''\<rparr>) []
        (snd (statusWatchKeys (exampleRequest\<lparr>rq_Revocable := True, rq_FullyQualifiedVerificationMethodID := ''#k2''\<rparr>)))
        = Inr (cred, tx1) \<and> tx1 \<noteq> [])
   \<and> CreateCredential exampleEnv exampleRand
        (exampleRequest\<lparr>rq_Revocable := True, rq_FullyQualifiedVerificationMethodID := ''#k2''\<rparr>) exampleStore
      = (Inl (Wrap ''execute'' (Wrap ''signing credential'' (CannotUseRevokedKey ''did:key:A#k2''))), exampleStore)"
proof -
  let ?rq = "exampleRequest\<lparr>rq_Revocable := True, rq_FullyQualifiedVerificationMethodID := ''#k2''\<rparr>"
  let ?k = "\<lparr>key_ID = ''did:key:A#k2'', key_Controller = ''did:key:A'', key_Revoked = True, key_Material = ''sk2''\<rparr>"
  have bad: "case GetKey exampleEnv (FullyQualifiedVerificationMethodID exampleEnv (rq_Issuer ?rq)
                   (rq_FullyQualifiedVerificationMethodID ?rq)) of
             Inl e \<Rightarrow> True
           | Inr k \<Rightarrow> key_Controller k \<noteq> rq_Issuer ?rq \<or> key_Revoked k"
    by (simp add: example_defs)
  have key: "GetKey exampleEnv (FullyQualifiedVerificationMethodID exampleEnv (rq_Issuer ?rq)
                   (rq_FullyQualifiedVerificationMethodID ?rq)) = Inr ?k
      \<and> key_Controller ?k = rq_Issuer ?rq \<and> key_Revoked ?k"
    by (simp add: example_defs)
  have pre: "requestIsValid exampleEnv ?rq = None \<and> isStatusValid ?rq"
    by (simp add: example_defs isStatusValid_def)
  have "\<exists>cred tx1. buildCredential exampleEnv exampleRand exampleStore ?rq [] (snd (statusWatchKeys ?rq))
        = Inr (cred, tx1) \<and> tx1 \<noteq> [] \<and> CopyCredentialError exampleEnv cred = None"
    by (simp add: create_defs update_defs example_defs)
  then obtain cred tx1 where
    built: "buildCredential exampleEnv exampleRand exampleStore ?rq [] (snd (statusWatchKeys ?rq)) = Inr (cred, tx1)"
    and pending: "tx1 \<noteq> []" and copied: "CopyCredentialError exampleEnv cred = None"
    by blast
  from CreateCredential_unusable_key [OF bad, where rnd = exampleRand and db = exampleStore
      and tx = "[]" and md = emptyMetadata] key pre built copied
  have "CreateCredential exampleEnv exampleRand ?rq exampleStore =
      (Inl (Wrap ''execute'' (Wrap ''signing credential'' (CannotUseRevokedKey (key_ID ?k)))), exampleStore)"
    by blast
  with built pending show ?thesis by auto
qed

section \<open>The subject of the credential\<close>

text \<open>
  C9. When the data of the request has an \<^verbatim>\<open>id\<close> that is not the requested subject,
  \<open>CreateCredential\<close> fails with the store unchanged, and when the status of the request
  is valid and the builder accepts the id and the issuer, the error of the transaction
  body is \<^verbatim>\<open>cannot set subject\<close> with the subject and the offending value (wrapped by
  \<^verbatim>\<open>execute\<close> for a request that is valid). Every credential that is created has as
  subject the data of the request with \<^verbatim>\<open>id\<close> set to the requested subject.
\<close>

theorem CreateCredential_subject:
  "(\<forall>d v. rq_Data request = Some d \<and> map_of d ''id'' = Some v \<and> v \<noteq> JString (rq_Subject request) \<longrightarrow>
      (\<exists>e. CreateCredential s rnd request db = (Inl e, db))
    \<and> (isStatusValid request
         \<and> builderCheck s (SetID (servicePath s @ ''/'' @ rnd_credentialID rnd)) = None
         \<and> builderCheck s (SetIssuer (rq_Issuer request)) = None \<longrightarrow>
         createCredential s rnd db request tx md = Inl (CannotSetSubject (rq_Subject request) v)
       \<and> (requestIsValid s request = None \<longrightarrow>
            CreateCredential s rnd request db = (Inl (Wrap ''execute'' (CannotSetSubject (rq_Subject request) v)), db))))
  \<and> (\<forall>container db'. CreateCredential s rnd request db = (Inr container, db') \<longrightarrow>
       (\<exists>d d'. rq_Data request = Some d
           \<and> vc_CredentialSubject (ct_Credential container) = SubjectData d'
           \<and> map_of d' = (map_of d)(''id'' \<mapsto> JString (rq_Subject request))))"
proof -
  have conflict_build: "\<exists>e. buildCredential s rnd db request tx' md' = Inl e"
    if "rq_Data request = Some d" "map_of d ''id'' = Some v" "v \<noteq> JString (rq_Subject request)" for d v tx' md'
  proof (cases "buildCredential s rnd db request tx' md'")
    case (Inl e) then show ?thesis by blast
  next
    case (Inr r)
    obtain cred tx1 where "r = (cred, tx1)" by (cases r)
    with Inr buildCredential_success [of s rnd db request tx' md' cred tx1] that show ?thesis by auto
  qed
  have conflict_body: "\<exists>e. createCredential s rnd db request tx' md' = Inl e"
    if "rq_Data request = Some d" "map_of d ''id'' = Some v" "v \<noteq> JString (rq_Subject request)" for d v tx' md'
    using conflict_build [OF that, of tx' md'] by (auto simp: createCredential_def bindE_def)
  have conflict_whole: "\<exists>e. CreateCredential s rnd request db = (Inl e, db)"
    if "rq_Data request = Some d" "map_of d ''id'' = Some v" "v \<noteq> JString (rq_Subject request)" for d v
    by (rule CreateCredential_body_fails) (rule conflict_body [OF that])
  have conflict_exact: "createCredential s rnd db request tx' md' = Inl (CannotSetSubject (rq_Subject request) v)"
    if "rq_Data request = Some d" "map_of d ''id'' = Some v" "v \<noteq> JString (rq_Subject request)"
       "isStatusValid request"
       "builderCheck s (SetID (servicePath s @ ''/'' @ rnd_credentialID rnd)) = None"
       "builderCheck s (SetIssuer (rq_Issuer request)) = None" for d v tx' md'
  proof -
    from that have "setIdentity s rnd request = Inl (CannotSetSubject (rq_Subject request) v)"
      by (simp add: setIdentity_def Let_def bindE_def builderCall_def)
    then have "buildCredential s rnd db request tx' md' = Inl (CannotSetSubject (rq_Subject request) v)"
      by (simp add: buildCredential_def bindE_def)
    with that(4) show ?thesis by (simp add: createCredential_def bindE_def)
  qed
  have success: "\<exists>d d'. rq_Data request = Some d
           \<and> vc_CredentialSubject (ct_Credential container) = SubjectData d'
           \<and> map_of d' = (map_of d)(''id'' \<mapsto> JString (rq_Subject request))"
    if "CreateCredential s rnd request db = (Inr container, db')" for container db'
  proof -
    from CreateCredential_success [OF that] obtain tx2 where
      "createCredential s rnd db request [] (snd (statusWatchKeys request)) = Inr (container, tx2)" by blast
    from createCredential_success [OF this] obtain cred tx1 where
      b: "buildCredential s rnd db request [] (snd (statusWatchKeys request)) = Inr (cred, tx1)"
      and c: "ct_Credential container = cred" by auto
    from buildCredential_success [OF b] c show ?thesis
      by (auto simp: update_conv')
  qed
  from conflict_whole conflict_exact CreateCredential_body_error success show ?thesis
    by (metis (no_types, lifting))
qed

theorem CreateCredential_subject_witness:
  "rq_Data (exampleRequest\<lparr>rq_Data := Some [(''id'', JString ''did:other:1'')]\<rparr>) = Some [(''id'', JString ''did:other:1'')]
   \<and> JString ''did:other:1'' \<noteq> JString (rq_Subject exampleRequest)
   \<and> CreateCredential exampleEnv exampleRand (exampleRequest\<lparr>rq_Data := Some [(''id'', JString ''did:other:1'')]\<rparr>) exampleStore
       = (Inl (Wrap ''execute'' (CannotSetSubject ''did:test:345'' (JString ''did:other:1''))), exampleStore)
   \<and> (\<exists>c db' d. CreateCredential exampleEnv exampleRand exampleRequest exampleStore = (Inr c, db')
         \<and> vc_CredentialSubject (ct_Credential c) = SubjectData d
         \<and> map_of d ''id'' = Some (JString ''did:test:345'')
         \<and> map_of d ''firstName'' = Some (JString ''Satoshi''))"
proof -
  let ?rq = "exampleRequest\<lparr>rq_Data := Some [(''id'', JString ''did:other:1'')]\<rparr>"
  have conflict: "rq_Data ?rq = Some [(''id'', JString ''did:other:1'')]
      \<and> map_of [(''id'', JString ''did:other:1'')] ''id'' = Some (JString ''did:other:1'')
      \<and> JString ''did:other:1'' \<noteq> JString (rq_Subject ?rq)"
    by (simp add: exampleRequest_def)
  have pre: "isStatusValid ?rq
      \<and> builderCheck exampleEnv (SetID (servicePath exampleEnv @ ''/'' @ rnd_credentialID exampleRand)) = None
      \<and> builderCheck exampleEnv (SetIssuer (rq_Issuer ?rq)) = None
      \<and> requestIsValid exampleEnv ?rq = None"
    by (simp add: example_defs isStatusValid_def)
  have subject: "rq_Subject ?rq = ''did:test:345''" "rq_Subject exampleRequest = ''did:test:345''"
    by (simp_all add: exampleRequest_def)
  from CreateCredential_subject [where s = exampleEnv and rnd = exampleRand and request = ?rq
      and db = exampleStore and tx = "[]" and md = emptyMetadata] conflict pre
  have failed: "CreateCredential exampleEnv exampleRand ?rq exampleStore =
      (Inl (Wrap ''execute'' (CannotSetSubject (rq_Subject ?rq) (JString ''did:other:1''))), exampleStore)"
    by blast
  have "\<exists>c db'. CreateCredential exampleEnv exampleRand exampleRequest exampleStore = (Inr c, db')"
    by (simp add: create_defs update_defs example_defs)
  then obtain c db' where created: "CreateCredential exampleEnv exampleRand exampleRequest exampleStore = (Inr c, db')"
    by blast
  from CreateCredential_subject [where s = exampleEnv and rnd = exampleRand and request = exampleRequest
      and db = exampleStore and tx = "[]" and md = emptyMetadata] created
  obtain d0 d where d0: "rq_Data exampleRequest = Some d0"
    and d: "vc_CredentialSubject (ct_Credential c) = SubjectData d"
      "map_of d = (map_of d0)(''id'' \<mapsto> JString (rq_Subject exampleRequest))"
    by blast
  from d0 have "d0 = [(''firstName'', JString ''Satoshi''), (''lastName'', JString ''Nakamoto'')]"
    by (simp add: exampleRequest_def)
  with d(2) have "map_of d ''id'' = Some (JString ''did:test:345'')"
      "map_of d ''firstName'' = Some (JString ''Satoshi'')"
    by (simp_all add: exampleRequest_def)
  with created d(1) failed conflict subject show ?thesis
    by auto
qed

section \<open>Creating, then reading\<close>

text \<open>
  C8. After a successful \<open>CreateCredential\<close>, when the record stored for the returned
  container is valid, \<open>GetCredential\<close> with the returned local id on the resulting store
  returns the same credential and the same JWT, which is present, with \<open>revoked\<close> and
  \<open>suspended\<close> both false.
\<close>

theorem CreateCredential_then_GetCredential:
  assumes created: "CreateCredential s rnd request db = (Inr container, db')"
      and valid: "storedIsValid s (buildStoredCredential container)"
  shows "\<exists>got. GetCredential s db' (ct_ID container) = Inr got
           \<and> ct_ID got = ct_ID container
           \<and> ct_Credential got = ct_Credential container
           \<and> ct_CredentialJWT got = ct_CredentialJWT container
           \<and> ct_CredentialJWT got \<noteq> None
           \<and> ct_Revoked got = False \<and> ct_Suspended got = False"
proof -
  from CreateCredential_success [OF created] obtain tx2 where
    body: "createCredential s rnd db request [] (snd (statusWatchKeys request)) = Inr (container, tx2)"
    and db': "db' = commit tx2 db" by blast
  from createCredential_success [OF body] obtain cred tx1 jwt where
    c: "container = \<lparr>ct_ID = rnd_credentialID rnd,
                 ct_FullyQualifiedVerificationMethodID = rq_FullyQualifiedVerificationMethodID request,
                 ct_Credential = cred, ct_CredentialJWT = Some jwt,
                 ct_Revoked = False, ct_Suspended = False\<rparr>"
    and tx2: "tx2 = tx1 @ [WriteCredential (rnd_credentialID rnd) (buildStoredCredential container)]"
    by blast
  have i: "ct_ID container = rnd_credentialID rnd" using c by simp
  have "map_of (credentialNS db') (ct_ID container) = Some (buildStoredCredential container)"
    unfolding db' tx2 commit_snoc i by (simp add: update_conv')
  then have get: "Storage_GetCredential db' (ct_ID container) = Inr (buildStoredCredential container)"
    by (simp add: Storage_GetCredential_def)
  have flags: "ct_Revoked container = False" "ct_Suspended container = False" "ct_CredentialJWT container \<noteq> None"
    using c by simp_all
  show ?thesis
    using valid flags by (simp add: GetCredential_def get buildStoredCredential_def)
qed

theorem CreateCredential_then_GetCredential_witness:
  "\<exists>c db'. CreateCredential exampleEnv exampleRand (exampleRequest\<lparr>rq_Revocable := True\<rparr>) exampleStore = (Inr c, db')
     \<and> ct_ID c = ''C'' \<and> ct_CredentialJWT c = Some ''jwt/sk1/svc/C''
     \<and> (\<exists>got. GetCredential exampleEnv db' ''C'' = Inr got
           \<and> ct_Credential got = ct_Credential c
           \<and> ct_CredentialJWT got = Some ''jwt/sk1/svc/C''
           \<and> ct_Revoked got = False \<and> ct_Suspended got = False)"
proof -
  have "\<exists>c db'. CreateCredential exampleEnv exampleRand (exampleRequest\<lparr>rq_Revocable := True\<rparr>) exampleStore = (Inr c, db')
     \<and> ct_ID c = ''C'' \<and> ct_CredentialJWT c = Some ''jwt/sk1/svc/C''
     \<and> storedIsValid exampleEnv (buildStoredCredential c)"
    by (simp add: create_defs update_defs example_defs)
  then obtain c db' where
    created: "CreateCredential exampleEnv exampleRand (exampleRequest\<lparr>rq_Revocable := True\<rparr>) exampleStore = (Inr c, db')"
    and c: "ct_ID c = ''C''" "ct_CredentialJWT c = Some ''jwt/sk1/svc/C''"
    and valid: "storedIsValid exampleEnv (buildStoredCredential c)"
    by blast
  from CreateCredential_then_GetCredential [OF created valid] c created show ?thesis
    by auto
qed

section \<open>A batch of creations\<close>



end
